theory Spec2Isabelle
  imports Complex_Main
begin

section \<open>JavaScript values\<close>

text \<open>
  The server is one JavaScript module, \<^verbatim>\<open>src/index.js\<close>. Its handlers receive the
  JSON arguments of a tool call, run shell commands through \<^verbatim>\<open>execAsync\<close> and build a
  JSON-compatible result. Values are modelled by \<open>jsval\<close>; an object is an association
  list in insertion order. Strings are lists of \<open>char\<close> (code units below 256).

  Numbers: a JavaScript number is an IEEE double. The model keeps the exact real value
  (\<open>Fin\<close>) next to \<open>NaN\<close> and the two infinities; rounding to a double and the negative
  zero are not modelled, so the model agrees with the program wherever the values
  involved are exactly representable (all integers below \<open>2 ^ 53\<close>, halves, quarters).
\<close>

datatype jsnum = NaN | Fin real | PosInf | NegInf

datatype jsval = JUndef | JNull | JBool bool | JNum jsnum | JStr string
  | JArr "jsval list" | JObj "(string \<times> jsval) list"

text \<open>Truthiness, as used by \<^verbatim>\<open>if (x)\<close>, \<^verbatim>\<open>x ? a : b\<close>, \<^verbatim>\<open>!x\<close> and \<^verbatim>\<open>x || y\<close>.\<close>

fun truthy :: "jsval \<Rightarrow> bool" where
  "truthy JUndef = False"
| "truthy JNull = False"
| "truthy (JBool b) = b"
| "truthy (JNum NaN) = False"
| "truthy (JNum (Fin x)) = (x \<noteq> 0)"
| "truthy (JNum PosInf) = True"
| "truthy (JNum NegInf) = True"
| "truthy (JStr s) = (s \<noteq> [])"
| "truthy (JArr xs) = True"
| "truthy (JObj kvs) = True"

text \<open>Property lookup \<^verbatim>\<open>o.k\<close> on a result object: \<^verbatim>\<open>undefined\<close> when absent.\<close>

fun field :: "string \<Rightarrow> jsval \<Rightarrow> jsval" where
  "field k (JObj kvs) = (case map_of kvs k of None \<Rightarrow> JUndef | Some v \<Rightarrow> v)"
| "field k v = JUndef"

subsection \<open>Strings\<close>

definition is_space :: "char \<Rightarrow> bool" where
  "is_space c = (c \<in> set [CHR 0x09, CHR 0x0A, CHR 0x0B, CHR 0x0C, CHR 0x0D, CHR 0x20, CHR 0xA0])"

definition is_digit :: "char \<Rightarrow> bool" where
  "is_digit c = (c \<in> set ''0123456789'')"

text \<open>\<^verbatim>\<open>String.prototype.trim\<close>.\<close>

definition trim :: "string \<Rightarrow> string" where
  "trim s = rev (dropWhile is_space (rev (dropWhile is_space s)))"

text \<open>\<^verbatim>\<open>s.includes(sub)\<close> on strings: \<open>sub\<close> occurs as a contiguous substring.\<close>

fun str_includes :: "string \<Rightarrow> string \<Rightarrow> bool" where
  "str_includes [] sub = (sub = [])"
| "str_includes (c # s) sub = (take (length sub) (c # s) = sub \<or> str_includes s sub)"

text \<open>
  \<^verbatim>\<open>s.split(/\s+/)\<close>: the pieces between maximal runs of white space; a leading or
  trailing run leaves an empty first or last piece, and the empty string gives \<open>['''']\<close>.
\<close>

fun split_ws :: "string \<Rightarrow> string list" where
  "split_ws [] = [[]]"
| "split_ws (c # s) =
     (if is_space c then
        (case s of d # r \<Rightarrow> if is_space d then split_ws s else [] # split_ws s
         | [] \<Rightarrow> [] # split_ws s)
      else (case split_ws s of p # ps \<Rightarrow> (c # p) # ps | [] \<Rightarrow> [[c]]))"

text \<open>\<^verbatim>\<open>s.split(sep)\<close> for a one-character separator.\<close>

fun split_on :: "char \<Rightarrow> string \<Rightarrow> string list" where
  "split_on d [] = [[]]"
| "split_on d (c # s) =
     (if c = d then [] # split_on d s
      else (case split_on d s of p # ps \<Rightarrow> (c # p) # ps | [] \<Rightarrow> [[c]]))"

text \<open>\<^verbatim>\<open>xs[i]\<close> is \<^verbatim>\<open>undefined\<close> past the end.\<close>

definition elem_at :: "string list \<Rightarrow> nat \<Rightarrow> jsval" where
  "elem_at xs i = (if i < length xs then JStr (xs ! i) else JUndef)"

definition join_with :: "string \<Rightarrow> string list \<Rightarrow> string" where
  "join_with sep xs = (case xs of [] \<Rightarrow> [] | y # ys \<Rightarrow> foldl (\<lambda>acc x. acc @ sep @ x) y ys)"

text \<open>
  \<^verbatim>\<open>s.replace(pat, rep)\<close> with a string pattern replaces the first occurrence only. In
  the replacement text \<^verbatim>\<open>$$\<close> stands for \<^verbatim>\<open>$\<close>, \<^verbatim>\<open>$&\<close> for the match, \<^verbatim>\<open>$`\<close> for the text
  before it and \<^verbatim>\<open>$'\<close> for the text after it.
\<close>

fun substitution :: "string \<Rightarrow> string \<Rightarrow> string \<Rightarrow> string \<Rightarrow> string" where
  "substitution m b a [] = []"
| "substitution m b a [c] = [c]"
| "substitution m b a (c # d # r) =
     (if c = CHR ''$'' \<and> d = CHR ''$'' then CHR ''$'' # substitution m b a r
      else if c = CHR ''$'' \<and> d = CHR ''&'' then m @ substitution m b a r
      else if c = CHR ''$'' \<and> d = CHR 0x60 then b @ substitution m b a r
      else if c = CHR ''$'' \<and> d = CHR 0x27 then a @ substitution m b a r
      else c # substitution m b a (d # r))"

fun replace_from :: "string \<Rightarrow> string \<Rightarrow> string \<Rightarrow> string \<Rightarrow> string" where
  "replace_from pre [] pat rep =
     (if pat = [] then pre @ substitution pat pre [] rep else pre)"
| "replace_from pre (c # s) pat rep =
     (if take (length pat) (c # s) = pat
      then pre @ substitution pat pre (drop (length pat) (c # s)) rep
             @ drop (length pat) (c # s)
      else replace_from (pre @ [c]) s pat rep)"

definition replace_first :: "string \<Rightarrow> string \<Rightarrow> string \<Rightarrow> string" where
  "replace_first s pat rep = replace_from [] s pat rep"

subsection \<open>Numbers\<close>

definition digit_val :: "char \<Rightarrow> nat" where
  "digit_val c =
     (if c \<in> set ''ABCDEF'' then length (takeWhile (\<lambda>d. d \<noteq> c) ''0123456789ABCDEF'')
      else length (takeWhile (\<lambda>d. d \<noteq> c) ''0123456789abcdef''))"

definition is_hex_digit :: "char \<Rightarrow> bool" where
  "is_hex_digit c = (c \<in> set ''0123456789abcdefABCDEF'')"

definition radix_val :: "nat \<Rightarrow> string \<Rightarrow> nat" where
  "radix_val b ds = foldl (\<lambda>acc c. b * acc + digit_val c) 0 ds"

definition split_sign :: "string \<Rightarrow> bool \<times> string" where
  "split_sign s =
     (case s of [] \<Rightarrow> (False, [])
      | c # r \<Rightarrow> if c = CHR ''-'' then (True, r) else if c = CHR ''+'' then (False, r)
                 else (False, s))"

text \<open>
  \<^verbatim>\<open>parseInt(s)\<close> without a radix: leading white space and a sign are skipped, a
  \<^verbatim>\<open>0x\<close> prefix selects base 16, and the longest run of digits is read; no digit at
  all gives \<^verbatim>\<open>NaN\<close>.
\<close>

definition parseInt :: "string \<Rightarrow> jsnum" where
  "parseInt s =
     (let (neg, u) = split_sign (dropWhile is_space s);
          hex = (take 2 u = ''0x'' \<or> take 2 u = ''0X'');
          ds = (if hex then takeWhile is_hex_digit (drop 2 u) else takeWhile is_digit u);
          n = radix_val (if hex then 16 else 10) ds
      in if ds = [] then NaN else Fin (if neg then - real n else real n))"

text \<open>
  \<^verbatim>\<open>parseFloat(s)\<close>: leading white space is skipped and the longest prefix that is a
  decimal literal (sign, \<^verbatim>\<open>Infinity\<close>, or digits with an optional fraction and an
  optional exponent) is read; no such prefix gives \<^verbatim>\<open>NaN\<close>.
\<close>

definition exponent_part :: "string \<Rightarrow> int" where
  "exponent_part s =
     (case s of [] \<Rightarrow> 0
      | c # r \<Rightarrow>
          if c = CHR ''e'' \<or> c = CHR ''E''
          then (let (neg, u) = split_sign r; ds = takeWhile is_digit u
                in if ds = [] then 0
                   else if neg then - int (radix_val 10 ds) else int (radix_val 10 ds))
          else 0)"

definition scale10 :: "real \<Rightarrow> int \<Rightarrow> real" where
  "scale10 x e = (if 0 \<le> e then x * 10 ^ nat e else x / 10 ^ nat (- e))"

definition parseFloat :: "string \<Rightarrow> jsnum" where
  "parseFloat s =
     (let (neg, u) = split_sign (dropWhile is_space s)
      in if take 8 u = ''Infinity'' then (if neg then NegInf else PosInf)
         else
           (let ip = takeWhile is_digit u;
                r1 = dropWhile is_digit u;
                dot = (take 1 r1 = ''.'');
                fp = (if dot then takeWhile is_digit (drop 1 r1) else []);
                r2 = (if dot then dropWhile is_digit (drop 1 r1) else r1);
                v = scale10 (real (radix_val 10 (ip @ fp))) (exponent_part r2 - int (length fp))
            in if ip = [] \<and> fp = [] then NaN else Fin (if neg then - v else v)))"

text \<open>Decimal digits of a natural number.\<close>

definition digit_char :: "nat \<Rightarrow> char" where
  "digit_char d = ''0123456789'' ! (d mod 10)"

fun digits_of :: "nat \<Rightarrow> string" where
  "digits_of n =
     (if n < 10 then [digit_char n] else digits_of (n div 10) @ [digit_char (n mod 10)])"

declare digits_of.simps [simp del]

text \<open>
  \<^verbatim>\<open>x.toFixed(f)\<close>: the integer \<open>n\<close> nearest to \<open>x * 10 ^ f\<close> (the larger one on a
  tie), printed with \<open>f\<close> digits after the point; the sign is taken off first and put
  back in front. (Above \<open>10 ^ 21\<close> JavaScript switches to exponent notation, which the
  model does not.)
\<close>

definition fixed_digits :: "nat \<Rightarrow> nat \<Rightarrow> string" where
  "fixed_digits f n =
     (let ds = digits_of n;
          ds' = replicate (Suc f - length ds) CHR ''0'' @ ds
      in if f = 0 then ds'
         else take (length ds' - f) ds' @ ''.'' @ drop (length ds' - f) ds')"

definition toFixed :: "nat \<Rightarrow> jsnum \<Rightarrow> string" where
  "toFixed f x =
     (case x of
        NaN \<Rightarrow> ''NaN''
      | PosInf \<Rightarrow> ''Infinity''
      | NegInf \<Rightarrow> ''-Infinity''
      | Fin r \<Rightarrow>
          (if r < 0 then ''-'' @ fixed_digits f (nat \<lfloor>(- r) * 10 ^ f + 1 / 2\<rfloor>)
           else fixed_digits f (nat \<lfloor>r * 10 ^ f + 1 / 2\<rfloor>)))"

text \<open>
  \<^verbatim>\<open>String(x)\<close> for a number, in JavaScript's positional notation: an integer as its
  digits, otherwise the integer part, a point and the digits of the fraction (at most
  twenty of them; the exponent notation of very large and very small numbers is not
  modelled).
\<close>

fun frac_digits :: "nat \<Rightarrow> real \<Rightarrow> string" where
  "frac_digits 0 r = []"
| "frac_digits (Suc k) r =
     (if r = 0 then []
      else digit_char (nat \<lfloor>r * 10\<rfloor>) # frac_digits k (r * 10 - real_of_int \<lfloor>r * 10\<rfloor>))"

definition pos_to_string :: "real \<Rightarrow> string" where
  "pos_to_string r = digits_of (nat \<lfloor>r\<rfloor>) @
     (if r = real_of_int \<lfloor>r\<rfloor> then [] else ''.'' @ frac_digits 20 (r - real_of_int \<lfloor>r\<rfloor>))"

definition num_to_string :: "jsnum \<Rightarrow> string" where
  "num_to_string x =
     (case x of
        NaN \<Rightarrow> ''NaN''
      | PosInf \<Rightarrow> ''Infinity''
      | NegInf \<Rightarrow> ''-Infinity''
      | Fin r \<Rightarrow> (if r < 0 then ''-'' @ pos_to_string (- r) else pos_to_string r))"

text \<open>
  \<^verbatim>\<open>String(v)\<close>, which is what a template literal \<^verbatim>\<open>`${v}`\<close> inserts: an array is its
  elements joined by commas (\<^verbatim>\<open>null\<close> and \<^verbatim>\<open>undefined\<close> as nothing), an object is
  \<^verbatim>\<open>[object Object]\<close>. (An object with a property \<^verbatim>\<open>toString\<close> or \<^verbatim>\<open>valueOf\<close> of its own,
  on which the conversion can throw, is outside the model, as it is outside the schemas.)
\<close>

fun to_str :: "jsval \<Rightarrow> string" where
  "to_str JUndef = ''undefined''"
| "to_str JNull = ''null''"
| "to_str (JBool b) = (if b then ''true'' else ''false'')"
| "to_str (JNum x) = num_to_string x"
| "to_str (JStr s) = s"
| "to_str (JArr xs) =
     join_with '','' (map (\<lambda>x. if x = JUndef \<or> x = JNull then [] else to_str x) xs)"
| "to_str (JObj kvs) = ''[object Object]''"

section \<open>The external-process layer\<close>

text \<open>
  \<^verbatim>\<open>execAsync(cmd)\<close> runs a shell command and either resolves with its standard output
  or rejects with an error carrying a message. The machine is a parameter: a function
  \<open>sh\<close> from the machine's state and a command to the outcome (\<open>Inr stdout\<close> or
  \<open>Inl message\<close>) and the next state. The world of a handler is that state together
  with the list of the commands issued so far.
\<close>

type_synonym 'w shell = "'w \<Rightarrow> string \<Rightarrow> (string + string) \<times> 'w"

record 'w world =
  machine :: 'w
  issued :: "string list"

text \<open>
  A computation either returns a value (\<open>Inr\<close>) or throws an error with a message
  (\<open>Inl\<close>), and in both cases leaves a world behind.
\<close>

type_synonym ('w, 'a) act = "'w world \<Rightarrow> (string + 'a) \<times> 'w world"

definition ret :: "'a \<Rightarrow> ('w, 'a) act" where
  "ret a s = (Inr a, s)"

definition throw :: "string \<Rightarrow> ('w, 'a) act" where
  "throw e s = (Inl e, s)"

definition bindE :: "('w, 'a) act \<Rightarrow> ('a \<Rightarrow> ('w, 'b) act) \<Rightarrow> ('w, 'b) act" where
  "bindE m f s = (case m s of (Inl e, s') \<Rightarrow> (Inl e, s') | (Inr a, s') \<Rightarrow> f a s')"

text \<open>\<^verbatim>\<open>try { m } catch (e) { h(e.message) }\<close>.\<close>

definition tryCatch :: "('w, 'a) act \<Rightarrow> (string \<Rightarrow> ('w, 'a) act) \<Rightarrow> ('w, 'a) act" where
  "tryCatch m h s = (case m s of (Inl e, s') \<Rightarrow> h e s' | (Inr a, s') \<Rightarrow> (Inr a, s'))"

definition execAsync :: "'w shell \<Rightarrow> string \<Rightarrow> ('w, string) act" where
  "execAsync sh cmd s =
     (case sh (machine s) cmd of
        (r, m') \<Rightarrow> (r, \<lparr>machine = m', issued = issued s @ [cmd]\<rparr>))"

section \<open>Arguments of a tool call\<close>

text \<open>
  The arguments of a call are a JSON object, seen here as a map from parameter names
  to values. A handler destructures it: \<^verbatim>\<open>{ pid }\<close> reads a property (\<^verbatim>\<open>undefined\<close> when
  absent) and \<^verbatim>\<open>{ force = false }\<close> puts the default in place of \<^verbatim>\<open>undefined\<close>.
\<close>

type_synonym args = "string \<rightharpoonup> jsval"

definition arg :: "args \<Rightarrow> string \<Rightarrow> jsval" where
  "arg a k = (case a k of None \<Rightarrow> JUndef | Some v \<Rightarrow> v)"

definition param :: "args \<Rightarrow> string \<Rightarrow> jsval \<Rightarrow> jsval" where
  "param a k d = (if arg a k = JUndef then d else arg a k)"

section \<open>Handlers\<close>

subsection \<open>\<^verbatim>\<open>handleKillProcess\<close>\<close>

definition signal_flag :: "jsval \<Rightarrow> string" where
  "signal_flag force = (if truthy force then ''-9'' else ''-15'')"

definition signal_name :: "jsval \<Rightarrow> jsval" where
  "signal_name force = JStr (if truthy force then ''SIGKILL'' else ''SIGTERM'')"

definition killProcess :: "'w shell \<Rightarrow> jsval \<Rightarrow> jsval \<Rightarrow> jsval \<Rightarrow> ('w, jsval) act" where
  \<open>killProcess sh pid name force =
     (let signal = signal_flag force
      in tryCatch
           (if truthy pid then
              bindE (execAsync sh (''kill '' @ signal @ '' '' @ to_str pid)) (\<lambda>_.
              ret (JObj [(''success'', JBool True), (''killed'', JObj [(''pid'', pid)]),
                         (''signal'', signal_name force)]))
            else if truthy name then
              bindE (execAsync sh (''pgrep -f "'' @ to_str name @ ''" | head -1'')) (\<lambda>stdout.
              let foundPid = trim stdout
              in if foundPid = [] then
                   ret (JObj [(''success'', JBool False),
                              (''error'', JStr (''No process found matching: '' @ to_str name))])
                 else
                   bindE (execAsync sh (''kill '' @ signal @ '' '' @ foundPid)) (\<lambda>_.
                   ret (JObj [(''success'', JBool True),
                              (''killed'', JObj [(''pid'', JNum (parseInt foundPid)),
                                                 (''name'', name)]),
                              (''signal'', signal_name force)])))
            else
              ret (JObj [(''success'', JBool False),
                         (''error'', JStr ''Must provide either pid or name'')]))
           (\<lambda>e. ret (JObj [(''success'', JBool False), (''error'', JStr e)])))\<close>

definition handleKillProcess :: "'w shell \<Rightarrow> args \<Rightarrow> ('w, jsval) act" where
  "handleKillProcess sh a =
     killProcess sh (arg a ''pid'') (arg a ''name'') (param a ''force'' (JBool False))"

subsection \<open>Helpers shared by the handlers\<close>

text \<open>
  \<^verbatim>\<open>process.env.HOME\<close> is a string or \<^verbatim>\<open>undefined\<close>; in a template literal and as the
  replacement of \<^verbatim>\<open>replace\<close> the latter reads \<^verbatim>\<open>undefined\<close>.
\<close>

definition env_str :: "string option \<Rightarrow> string" where
  "env_str home = (case home of None \<Rightarrow> ''undefined'' | Some h \<Rightarrow> h)"

text \<open>
  \<^verbatim>\<open>s.split(/\s+/)[0]\<close>: \<^verbatim>\<open>split\<close> never returns an empty array, so the first piece is
  always there.
\<close>

definition first_field :: "string \<Rightarrow> string" where
  "first_field s = (case split_ws s of p # ps \<Rightarrow> p | [] \<Rightarrow> [])"

text \<open>Arithmetic and comparison of a number with a constant.\<close>

definition num_gt :: "jsnum \<Rightarrow> real \<Rightarrow> bool" where
  "num_gt x c = (case x of NaN \<Rightarrow> False | Fin r \<Rightarrow> c < r | PosInf \<Rightarrow> True | NegInf \<Rightarrow> False)"

definition num_lt :: "jsnum \<Rightarrow> real \<Rightarrow> bool" where
  "num_lt x c = (case x of NaN \<Rightarrow> False | Fin r \<Rightarrow> r < c | PosInf \<Rightarrow> False | NegInf \<Rightarrow> True)"

definition num_scale :: "jsnum \<Rightarrow> real \<Rightarrow> jsnum" where
  \<comment> \<open>\<^verbatim>\<open>x * c\<close> and \<^verbatim>\<open>x / (1 / c)\<close> for a constant \<open>c > 0\<close>\<close>
  "num_scale x c = (case x of Fin r \<Rightarrow> Fin (r * c) | y \<Rightarrow> y)"

definition num_add :: "jsnum \<Rightarrow> real \<Rightarrow> jsnum" where
  "num_add x c = (case x of Fin r \<Rightarrow> Fin (r + c) | y \<Rightarrow> y)"

definition num_sub :: "jsnum \<Rightarrow> jsnum \<Rightarrow> jsnum" where
  "num_sub x y =
     (case (x, y) of
        (Fin a, Fin b) \<Rightarrow> Fin (a - b)
      | (Fin a, PosInf) \<Rightarrow> NegInf
      | (Fin a, NegInf) \<Rightarrow> PosInf
      | (PosInf, Fin b) \<Rightarrow> PosInf
      | (PosInf, NegInf) \<Rightarrow> PosInf
      | (NegInf, Fin b) \<Rightarrow> NegInf
      | (NegInf, PosInf) \<Rightarrow> NegInf
      | _ \<Rightarrow> NaN)"

text \<open>\<^verbatim>\<open>x || 0\<close> for a number \<open>x\<close>.\<close>

definition or_zero :: "jsnum \<Rightarrow> jsnum" where
  "or_zero x = (if truthy (JNum x) then x else Fin 0)"

text \<open>
  \<^verbatim>\<open>v + 1\<close>: a number is incremented, \<^verbatim>\<open>null\<close> and booleans are converted to numbers
  first, \<^verbatim>\<open>undefined\<close> gives \<^verbatim>\<open>NaN\<close>; a string, and an array or object through its
  string form, gets the character \<^verbatim>\<open>1\<close> appended.
\<close>

definition plus_one :: "jsval \<Rightarrow> jsval" where
  "plus_one v =
     (case v of
        JUndef \<Rightarrow> JNum NaN
      | JNull \<Rightarrow> JNum (Fin 1)
      | JBool b \<Rightarrow> JNum (Fin (if b then 2 else 1))
      | JNum x \<Rightarrow> JNum (num_add x 1)
      | JStr s \<Rightarrow> JStr (s @ ''1'')
      | JArr xs \<Rightarrow> JStr (to_str v @ ''1'')
      | JObj kvs \<Rightarrow> JStr (to_str v @ ''1''))"

text \<open>
  A method call on an argument of unknown type. \<^verbatim>\<open>v.replace(pat, rep)\<close> exists on
  strings only, \<^verbatim>\<open>v.includes(x)\<close> on strings and arrays; on anything else the call
  throws a \<^verbatim>\<open>TypeError\<close> (the messages are those of V8).
\<close>

definition js_replace :: "string \<Rightarrow> jsval \<Rightarrow> string \<Rightarrow> string \<Rightarrow> ('w, string) act" where
  "js_replace var v pat rep =
     (case v of
        JStr s \<Rightarrow> ret (replace_first s pat rep)
      | JUndef \<Rightarrow> throw ''Cannot read properties of undefined (reading 'replace')''
      | JNull \<Rightarrow> throw ''Cannot read properties of null (reading 'replace')''
      | _ \<Rightarrow> throw (var @ ''.replace is not a function''))"

definition js_includes :: "string \<Rightarrow> jsval \<Rightarrow> string \<Rightarrow> ('w, bool) act" where
  "js_includes var v x =
     (case v of
        JStr s \<Rightarrow> ret (str_includes s x)
      | JArr xs \<Rightarrow> ret (JStr x \<in> set xs)
      | JUndef \<Rightarrow> throw ''Cannot read properties of undefined (reading 'includes')''
      | JNull \<Rightarrow> throw ''Cannot read properties of null (reading 'includes')''
      | _ \<Rightarrow> throw (var @ ''.includes is not a function''))"

text \<open>\<^verbatim>\<open>for (const x of xs) { ... }\<close> over a list, threading an accumulator.\<close>

fun for_each :: "'a list \<Rightarrow> ('a \<Rightarrow> 'b \<Rightarrow> ('w, 'b) act) \<Rightarrow> 'b \<Rightarrow> ('w, 'b) act" where
  "for_each [] body acc = ret acc"
| "for_each (x # xs) body acc = bindE (body x acc) (\<lambda>acc'. for_each xs body acc')"

subsection \<open>\<^verbatim>\<open>handleDiskUsage\<close>\<close>

definition diskUsage :: "'w shell \<Rightarrow> string option \<Rightarrow> jsval \<Rightarrow> jsval \<Rightarrow> ('w, jsval) act" where
  \<open>diskUsage sh home path depth =
     tryCatch
       (bindE (js_replace ''path'' path ''~'' (env_str home)) (\<lambda>expandedPath.
        bindE (execAsync sh (''dust -d '' @ to_str depth @ '' -n 20 -c "'' @ expandedPath
                 @ ''" 2>/dev/null || du -h -d '' @ to_str depth @ '' "'' @ expandedPath
                 @ ''" 2>/dev/null | sort -hr | head -20'')) (\<lambda>stdout.
        bindE (execAsync sh ''df -h / | tail -1'') (\<lambda>dfOutput.
        ret (JObj [(''diskUsage'', JStr stdout), (''systemStatus'', JStr (trim dfOutput))])))))
       (\<lambda>e. ret (JObj [(''error'', JStr e)]))\<close>

definition handleDiskUsage :: "'w shell \<Rightarrow> string option \<Rightarrow> args \<Rightarrow> ('w, jsval) act" where
  "handleDiskUsage sh home a =
     diskUsage sh home (param a ''path'' (JStr ''~'')) (param a ''depth'' (JNum (Fin 1)))"

subsection \<open>\<^verbatim>\<open>handleGoCacheStatus\<close>\<close>

definition recommendation :: "jsnum \<Rightarrow> string" where
  "recommendation sizeGB =
     (if num_gt sizeGB 20 then
        ''CRITICAL: Cache is very large. Run 'go clean -cache' to reclaim space.''
      else if num_gt sizeGB 10 then
        ''WARNING: Cache is getting large. Consider cleaning with 'go clean -cache'.''
      else ''Cache size is reasonable.'')"

definition handleGoCacheStatus :: "'w shell \<Rightarrow> ('w, jsval) act" where
  \<open>handleGoCacheStatus sh =
     tryCatch
       (bindE (execAsync sh ''go env GOCACHE'') (\<lambda>cachePath.
        bindE (execAsync sh (''du -sh "'' @ trim cachePath
                 @ ''" 2>/dev/null || echo "Unable to determine size"'')) (\<lambda>cacheSize.
        let sizeGB = or_zero (parseFloat (replace_first (first_field cacheSize) ''G'' ''''))
        in ret (JObj [(''cachePath'', JStr (trim cachePath)),
                      (''cacheSize'', JStr (trim cacheSize)),
                      (''recommendation'', JStr (recommendation sizeGB)),
                      (''commands'', JObj
                         [(''cleanBuildCache'', JStr ''go clean -cache''),
                          (''cleanTestCache'', JStr ''go clean -testcache''),
                          (''cleanModuleCache'',
                           JStr ''go clean -modcache (careful: re-downloads all modules)'')])]))))
       (\<lambda>e. ret (JObj [(''error'', JStr e), (''note'', JStr ''Go may not be installed'')]))\<close>

subsection \<open>\<^verbatim>\<open>handleCleanupCaches\<close>\<close>

text \<open>
  One block per cache: \<^verbatim>\<open>if (all || targets.includes(key)) { try { ... } catch (e)
  { results[key] = { error: e.message } } }\<close>. In a dry run the block runs a measuring
  command and stores its output under a key of its own; otherwise it runs the cleaning
  command. The \<^verbatim>\<open>includes\<close> test stands outside the \<^verbatim>\<open>try\<close>.
\<close>

definition cache_block ::
  "'w shell \<Rightarrow> jsval \<Rightarrow> string \<Rightarrow> (string \<Rightarrow> jsval) \<Rightarrow> string \<Rightarrow> (string \<Rightarrow> jsval)
     \<Rightarrow> ('w, jsval) act" where
  "cache_block sh dryRun dryCmd dryResult cleanCmd cleanResult =
     tryCatch
       (if truthy dryRun then bindE (execAsync sh dryCmd) (\<lambda>stdout. ret (dryResult stdout))
        else bindE (execAsync sh cleanCmd) (\<lambda>stdout. ret (cleanResult stdout)))
       (\<lambda>e. ret (JObj [(''error'', JStr e)]))"

definition cache_step ::
  "bool \<Rightarrow> jsval \<Rightarrow> string \<Rightarrow> ('w, jsval) act \<Rightarrow> (string \<times> jsval) list
     \<Rightarrow> ('w, (string \<times> jsval) list) act" where
  "cache_step all targets key block results =
     bindE (if all then ret True else js_includes ''targets'' targets key) (\<lambda>selected.
     if selected then bindE block (\<lambda>r. ret (results @ [(key, r)])) else ret results)"

definition cleaned :: "string \<Rightarrow> jsval" where
  "cleaned stdout = JObj [(''status'', JStr ''cleaned'')]"

definition trimmed_as :: "string \<Rightarrow> string \<Rightarrow> jsval" where
  "trimmed_as key stdout = JObj [(key, JStr (trim stdout))]"

definition chromeCachePath :: "string option \<Rightarrow> string" where
  "chromeCachePath home = env_str home @ ''/Library/Caches/Google/Chrome''"

definition spotifyCachePath :: "string option \<Rightarrow> string" where
  "spotifyCachePath home = env_str home @ ''/Library/Caches/com.spotify.client''"

definition goBlock :: "'w shell \<Rightarrow> jsval \<Rightarrow> ('w, jsval) act" where
  "goBlock sh dryRun =
     cache_block sh dryRun ''du -sh $(go env GOCACHE) 2>/dev/null'' (trimmed_as ''wouldClean'')
       ''go clean -cache'' cleaned"

definition brewBlock :: "'w shell \<Rightarrow> jsval \<Rightarrow> ('w, jsval) act" where
  "brewBlock sh dryRun =
     cache_block sh dryRun ''brew cleanup --dry-run 2>&1 | tail -5'' (trimmed_as ''wouldClean'')
       ''brew cleanup --prune=all 2>&1 | tail -3'' (trimmed_as ''status'')"

definition npmBlock :: "'w shell \<Rightarrow> jsval \<Rightarrow> ('w, jsval) act" where
  "npmBlock sh dryRun =
     cache_block sh dryRun ''npm cache ls 2>/dev/null | wc -l'' (trimmed_as ''cachedItems'')
       ''npm cache clean --force 2>/dev/null'' cleaned"

definition pipBlock :: "'w shell \<Rightarrow> jsval \<Rightarrow> ('w, jsval) act" where
  "pipBlock sh dryRun =
     cache_block sh dryRun (''pip cache info 2>/dev/null | grep 'Size'' @ [CHR 0x27])
       (trimmed_as ''info'')
       ''pip cache purge 2>/dev/null'' cleaned"

definition chromeBlock :: "'w shell \<Rightarrow> string option \<Rightarrow> jsval \<Rightarrow> ('w, jsval) act" where
  \<open>chromeBlock sh home dryRun =
     cache_block sh dryRun (''du -sh "'' @ chromeCachePath home @ ''" 2>/dev/null'')
       (trimmed_as ''size'')
       (''rm -rf "'' @ chromeCachePath home @ ''"/* 2>/dev/null'') cleaned\<close>

definition spotifyBlock :: "'w shell \<Rightarrow> string option \<Rightarrow> jsval \<Rightarrow> ('w, jsval) act" where
  \<open>spotifyBlock sh home dryRun =
     cache_block sh dryRun (''du -sh "'' @ spotifyCachePath home @ ''" 2>/dev/null'')
       (trimmed_as ''size'')
       (''rm -rf "'' @ spotifyCachePath home @ ''"/* 2>/dev/null'') cleaned\<close>

definition cleanupCaches :: "'w shell \<Rightarrow> string option \<Rightarrow> jsval \<Rightarrow> jsval \<Rightarrow> ('w, jsval) act" where
  "cleanupCaches sh home targets dryRun =
     bindE (js_includes ''targets'' targets ''all'') (\<lambda>all.
     bindE (cache_step all targets ''go'' (goBlock sh dryRun) []) (\<lambda>r1.
     bindE (cache_step all targets ''brew'' (brewBlock sh dryRun) r1) (\<lambda>r2.
     bindE (cache_step all targets ''npm'' (npmBlock sh dryRun) r2) (\<lambda>r3.
     bindE (cache_step all targets ''pip'' (pipBlock sh dryRun) r3) (\<lambda>r4.
     bindE (cache_step all targets ''chrome'' (chromeBlock sh home dryRun) r4) (\<lambda>r5.
     bindE (cache_step all targets ''spotify'' (spotifyBlock sh home dryRun) r5) (\<lambda>results.
     ret (JObj [(''dryRun'', dryRun), (''results'', JObj results)]))))))))"

definition handleCleanupCaches :: "'w shell \<Rightarrow> string option \<Rightarrow> args \<Rightarrow> ('w, jsval) act" where
  "handleCleanupCaches sh home a =
     cleanupCaches sh home (param a ''targets'' (JArr [JStr ''all'']))
       (param a ''dryRun'' (JBool False))"

subsection \<open>\<^verbatim>\<open>handleDockerCleanup\<close>\<close>

definition dockerCleanup :: "'w shell \<Rightarrow> jsval \<Rightarrow> jsval \<Rightarrow> ('w, jsval) act" where
  "dockerCleanup sh includeVolumes dryRun =
     tryCatch
       (bindE (execAsync sh ''docker system df 2>/dev/null'') (\<lambda>dfBefore.
        if truthy dryRun then
          ret (JObj [(''currentUsage'', JStr dfBefore),
                     (''note'', JStr ''Run with dryRun=false to clean'')])
        else
          bindE (execAsync sh ''docker system prune -af 2>/dev/null'') (\<lambda>pruneOutput.
          bindE (if truthy includeVolumes then execAsync sh ''docker volume prune -f 2>/dev/null''
                 else ret []) (\<lambda>volumeOutput.
          bindE (execAsync sh ''docker system df 2>/dev/null'') (\<lambda>dfAfter.
          ret (JObj [(''before'', JStr dfBefore), (''after'', JStr dfAfter),
                     (''pruneResult'', JStr pruneOutput),
                     (''volumeResult'',
                      JStr (if volumeOutput = [] then ''skipped'' else volumeOutput))]))))))
       (\<lambda>e. ret (JObj [(''error'', JStr e), (''note'', JStr ''Docker may not be running'')]))"

definition handleDockerCleanup :: "'w shell \<Rightarrow> args \<Rightarrow> ('w, jsval) act" where
  "handleDockerCleanup sh a =
     dockerCleanup sh (param a ''includeVolumes'' (JBool False)) (param a ''dryRun'' (JBool False))"

subsection \<open>\<^verbatim>\<open>handleEmptyTrash\<close>\<close>

definition emptyTrash :: "'w shell \<Rightarrow> jsval \<Rightarrow> ('w, jsval) act" where
  "emptyTrash sh dryRun =
     tryCatch
       (bindE (execAsync sh ''du -sh ~/.Trash 2>/dev/null'') (\<lambda>size.
        if truthy dryRun then
          ret (JObj [(''trashSize'', JStr (trim size)),
                     (''note'', JStr ''Run with dryRun=false to empty'')])
        else
          bindE (execAsync sh ''rm -rf ~/.Trash/* 2>/dev/null'') (\<lambda>_.
          ret (JObj [(''status'', JStr ''emptied''), (''previousSize'', JStr (trim size))]))))
       (\<lambda>e. ret (JObj [(''error'', JStr e)]))"

definition handleEmptyTrash :: "'w shell \<Rightarrow> args \<Rightarrow> ('w, jsval) act" where
  "handleEmptyTrash sh a = emptyTrash sh (param a ''dryRun'' (JBool False))"

subsection \<open>\<^verbatim>\<open>handleMemoryStatus\<close>\<close>

text \<open>
  \<^verbatim>\<open>line.match(/^(.+):\s+(\d+)/)\<close>. The first group is greedy and does not cross a line
  terminator: it is the longest non-empty prefix of the line that is followed by a
  colon, at least one white-space character and at least one digit. The second group
  is the run of digits.
\<close>

definition is_line_end :: "char \<Rightarrow> bool" where
  "is_line_end c = (c = CHR 0x0A \<or> c = CHR 0x0D)"

definition colon_number :: "string \<Rightarrow> string option" where
  "colon_number r =
     (case r of
        [] \<Rightarrow> None
      | c # r' \<Rightarrow>
          if c = CHR '':'' \<and> takeWhile is_space r' \<noteq> []
               \<and> takeWhile is_digit (dropWhile is_space r') \<noteq> []
          then Some (takeWhile is_digit (dropWhile is_space r'))
          else None)"

definition stat_match :: "string \<Rightarrow> (string \<times> string) option" where
  "stat_match line =
     (let n = length (takeWhile (\<lambda>c. \<not> is_line_end c) line)
      in case List.find (\<lambda>k. colon_number (drop k line) \<noteq> None) (rev [1..<Suc n]) of
           None \<Rightarrow> None
         | Some k \<Rightarrow> map_option (\<lambda>ds. (take k line, ds)) (colon_number (drop k line)))"

definition page_stats :: "string \<Rightarrow> (string \<rightharpoonup> jsnum)" where
  "page_stats vmStat =
     foldl (\<lambda>stats line.
              case stat_match line of
                None \<Rightarrow> stats
              | Some (k, ds) \<Rightarrow>
                  stats(trim k \<mapsto> num_scale (num_scale (parseInt ds) 16384) (1 / (1024 * 1024 * 1024))))
       Map.empty (split_on (CHR 0x0A) vmStat)"

definition gb_or_na :: "jsnum option \<Rightarrow> jsval" where
  "gb_or_na x = (case x of None \<Rightarrow> JStr ''N/A'' | Some v \<Rightarrow> JStr (toFixed 2 v))"

definition handleMemoryStatus :: "'w shell \<Rightarrow> ('w, jsval) act" where
  "handleMemoryStatus sh =
     tryCatch
       (bindE (execAsync sh ''vm_stat'') (\<lambda>vmStat.
        bindE (execAsync sh
                 (''memory_pressure 2>/dev/null || echo 'memory_pressure command not available''
                    @ [CHR 0x27])) (\<lambda>memPressure.
        bindE (execAsync sh ''ps aux --sort=-%mem | head -10'') (\<lambda>topProcesses.
        let stats = page_stats vmStat
        in ret (JObj [(''memoryPressure'', JStr (trim memPressure)),
                      (''topProcesses'', JStr topProcesses),
                      (''vmStats'', JObj
                         [(''freeGB'', gb_or_na (stats ''Pages free'')),
                          (''activeGB'', gb_or_na (stats ''Pages active'')),
                          (''inactiveGB'', gb_or_na (stats ''Pages inactive'')),
                          (''wiredGB'', gb_or_na (stats ''Pages wired down'')),
                          (''compressedGB'',
                           gb_or_na (stats ''Pages occupied by compressor''))])])))))
       (\<lambda>e. ret (JObj [(''error'', JStr e)]))"

subsection \<open>\<^verbatim>\<open>handleCleanupRecommendations\<close>\<close>

text \<open>
  Five checks, each in a \<^verbatim>\<open>try\<close> whose \<^verbatim>\<open>catch\<close> is empty: a check that fails adds
  nothing. \<open>quietly m recs\<close> is \<^verbatim>\<open>try { m } catch (e) {}\<close> for a block \<open>m\<close> that returns
  the extended list.
\<close>

definition quietly :: "('w, 'a) act \<Rightarrow> 'a \<Rightarrow> ('w, 'a) act" where
  "quietly m unchanged = tryCatch m (\<lambda>e. ret unchanged)"

definition percent_text :: "jsval \<Rightarrow> string" where
  \<comment> \<open>\<^verbatim>\<open>parts[4]?.replace("%", "") || "0"\<close>\<close>
  "percent_text p =
     (case p of
        JStr s \<Rightarrow> if replace_first s ''%'' [] = [] then ''0'' else replace_first s ''%'' []
      | _ \<Rightarrow> ''0'')"

definition checkDisk :: "'w shell \<Rightarrow> jsval list \<Rightarrow> ('w, jsval list) act" where
  "checkDisk sh recs =
     quietly
       (bindE (execAsync sh ''df -h / | tail -1'') (\<lambda>stdout.
        let parts = split_ws (trim stdout);
            usedPercent = parseInt (percent_text (elem_at parts 4))
        in if num_gt usedPercent 90 then
             ret (recs @ [JObj [(''priority'', JStr ''HIGH''),
                    (''message'', JStr (''Disk '' @ num_to_string usedPercent
                       @ ''% full - immediate cleanup needed''))]])
           else if num_gt usedPercent 80 then
             ret (recs @ [JObj [(''priority'', JStr ''MEDIUM''),
                    (''message'', JStr (''Disk '' @ num_to_string usedPercent
                       @ ''% full - consider cleanup''))]])
           else ret recs))
       recs"

definition size_rec ::
  "string \<Rightarrow> real \<Rightarrow> string \<Rightarrow> string \<Rightarrow> string \<Rightarrow> jsval list \<Rightarrow> jsval list" where
  \<comment> \<open>the shared tail of the three \<^verbatim>\<open>du -s\<close> checks\<close>
  "size_rec stdout limit priority target command recs =
     (let sizeKB = parseInt (first_field stdout);
          sizeGB = num_scale (num_scale sizeKB (1 / 1024)) (1 / 1024)
      in if num_gt sizeGB limit then
           recs @ [JObj [(''priority'', JStr priority), (''target'', JStr target),
                         (''sizeGB'', JStr (toFixed 1 sizeGB)), (''command'', JStr command)]]
         else recs)"

definition checkGoCache :: "'w shell \<Rightarrow> jsval list \<Rightarrow> ('w, jsval list) act" where
  \<open>checkGoCache sh recs =
     quietly
       (bindE (execAsync sh ''go env GOCACHE'') (\<lambda>cachePath.
        bindE (execAsync sh (''du -s "'' @ trim cachePath @ ''" 2>/dev/null'')) (\<lambda>stdout.
        ret (size_rec stdout 10 ''HIGH'' ''go-cache'' ''go clean -cache'' recs))))
       recs\<close>

definition checkTrash :: "'w shell \<Rightarrow> jsval list \<Rightarrow> ('w, jsval list) act" where
  "checkTrash sh recs =
     quietly
       (bindE (execAsync sh ''du -s ~/.Trash 2>/dev/null'') (\<lambda>stdout.
        ret (size_rec stdout 1 ''LOW'' ''trash'' ''rm -rf ~/.Trash/*'' recs)))
       recs"

definition checkDocker :: "'w shell \<Rightarrow> jsval list \<Rightarrow> ('w, jsval list) act" where
  "checkDocker sh recs =
     quietly
       (bindE (execAsync sh ''docker system df --format '{{.Size}}' 2>/dev/null | head -1'')
          (\<lambda>stdout.
        if str_includes stdout ''GB'' then
          ret (recs @ [JObj [(''priority'', JStr ''MEDIUM''), (''target'', JStr ''docker''),
                             (''size'', JStr (trim stdout)),
                             (''command'', JStr ''docker system prune -a'')]])
        else ret recs))
       recs"

definition checkHomebrew :: "'w shell \<Rightarrow> jsval list \<Rightarrow> ('w, jsval list) act" where
  "checkHomebrew sh recs =
     quietly
       (bindE (execAsync sh ''du -s ~/Library/Caches/Homebrew 2>/dev/null'') (\<lambda>stdout.
        ret (size_rec stdout 1 ''LOW'' ''homebrew-cache'' ''brew cleanup --prune=all'' recs)))
       recs"

definition handleCleanupRecommendations :: "'w shell \<Rightarrow> ('w, jsval) act" where
  "handleCleanupRecommendations sh =
     bindE (checkDisk sh []) (\<lambda>r1.
     bindE (checkGoCache sh r1) (\<lambda>r2.
     bindE (checkTrash sh r2) (\<lambda>r3.
     bindE (checkDocker sh r3) (\<lambda>r4.
     bindE (checkHomebrew sh r4) (\<lambda>recs.
     ret (JObj [(''recommendations'',
                 JArr (if recs \<noteq> [] then recs
                       else [JObj [(''message'', JStr ''No immediate cleanup needed'')]]))]))))))"

subsection \<open>\<^verbatim>\<open>handleFullCleanupWorkflow\<close>\<close>

text \<open>
  The handler builds one object, \<^verbatim>\<open>workflow\<close>, and every part of it appends to
  \<^verbatim>\<open>workflow.steps\<close> or sets a field. The record below is that object; \<^verbatim>\<open>before\<close> and
  \<^verbatim>\<open>after\<close> do not exist until they are set.
\<close>

record workflow =
  wf_steps :: "jsval list"
  wf_totalRecovered :: string
  wf_dryRun :: jsval
  wf_before :: "jsval option"
  wf_after :: "jsval option"

definition push_step :: "jsval \<Rightarrow> workflow \<Rightarrow> workflow" where
  "push_step r flow = flow\<lparr>wf_steps := wf_steps flow @ [r]\<rparr>"

definition status_word :: "jsval \<Rightarrow> jsval" where
  \<comment> \<open>\<^verbatim>\<open>dryRun ? "would clean" : "cleaned"\<close>\<close>
  "status_word dryRun = JStr (if truthy dryRun then ''would clean'' else ''cleaned'')"

definition unless_dry :: "jsval \<Rightarrow> 'w shell \<Rightarrow> string \<Rightarrow> ('w, unit) act" where
  \<comment> \<open>\<^verbatim>\<open>if (!dryRun) await execAsync(cmd)\<close>\<close>
  "unless_dry dryRun sh cmd =
     (if truthy dryRun then ret () else bindE (execAsync sh cmd) (\<lambda>_. ret ()))"

definition disk_state :: "string \<Rightarrow> jsval" where
  "disk_state stdout =
     (let parts = split_ws (trim stdout)
      in JObj [(''used'', elem_at parts 2), (''available'', elem_at parts 3),
               (''percentUsed'', elem_at parts 4)])"

definition captureBefore :: "'w shell \<Rightarrow> workflow \<Rightarrow> ('w, workflow) act" where
  "captureBefore sh flow =
     tryCatch
       (bindE (execAsync sh ''df -h / | tail -1'') (\<lambda>stdout.
        ret (flow\<lparr>wf_before := Some (disk_state stdout)\<rparr>)))
       (\<lambda>e. ret (flow\<lparr>wf_before := Some (JObj [(''error'', JStr e)])\<rparr>))"

definition stepEmptyTrash :: "'w shell \<Rightarrow> jsval \<Rightarrow> workflow \<Rightarrow> ('w, workflow) act" where
  "stepEmptyTrash sh dryRun flow =
     tryCatch
       (bindE (execAsync sh ''du -sh ~/.Trash 2>/dev/null'') (\<lambda>trashSize.
        bindE (unless_dry dryRun sh ''rm -rf ~/.Trash/* 2>/dev/null'') (\<lambda>_.
        ret (push_step (JObj [(''name'', JStr ''Empty Trash''),
                              (''size'', JStr (first_field (trim trashSize))),
                              (''status'', status_word dryRun)]) flow))))
       (\<lambda>e. ret (push_step (JObj [(''name'', JStr ''Empty Trash''), (''status'', JStr ''skipped''),
                                   (''error'', JStr e)]) flow))"

definition stepGoCache :: "'w shell \<Rightarrow> jsval \<Rightarrow> workflow \<Rightarrow> ('w, workflow) act" where
  \<open>stepGoCache sh dryRun flow =
     tryCatch
       (bindE (execAsync sh ''go env GOCACHE'') (\<lambda>cachePath.
        bindE (execAsync sh (''du -sh "'' @ trim cachePath @ ''" 2>/dev/null'')) (\<lambda>cacheSize.
        bindE (unless_dry dryRun sh ''go clean -cache'') (\<lambda>_.
        ret (push_step (JObj [(''name'', JStr ''Go Build Cache''),
                              (''size'', JStr (first_field (trim cacheSize))),
                              (''status'', status_word dryRun)]) flow)))))
       (\<lambda>e. ret (push_step (JObj [(''name'', JStr ''Go Build Cache''),
                                   (''status'', JStr ''skipped''),
                                   (''note'', JStr ''Go not installed or cache empty'')]) flow))\<close>

definition stepHomebrew :: "'w shell \<Rightarrow> jsval \<Rightarrow> workflow \<Rightarrow> ('w, workflow) act" where
  "stepHomebrew sh dryRun flow =
     tryCatch
       (bindE (execAsync sh ''du -sh ~/Library/Caches/Homebrew 2>/dev/null'') (\<lambda>brewSize.
        if \<not> truthy dryRun then
          bindE (execAsync sh
                   (''brew cleanup --prune=all 2>&1 | grep -E 'freed|Removing' | tail -1''))
            (\<lambda>stdout.
          ret (push_step (JObj [(''name'', JStr ''Homebrew Cache''),
                                (''size'', JStr (first_field (trim brewSize))),
                                (''status'', JStr ''cleaned''),
                                (''detail'', JStr (trim stdout))]) flow))
        else
          ret (push_step (JObj [(''name'', JStr ''Homebrew Cache''),
                                (''size'', JStr (first_field (trim brewSize))),
                                (''status'', JStr ''would clean'')]) flow)))
       (\<lambda>e. ret (push_step (JObj [(''name'', JStr ''Homebrew Cache''),
                                   (''status'', JStr ''skipped'')]) flow))"

definition stepFolder ::
  "'w shell \<Rightarrow> string \<Rightarrow> string \<Rightarrow> jsval \<Rightarrow> workflow \<Rightarrow> ('w, workflow) act" where
  \<comment> \<open>steps 5 and 6, which differ in the name and the folder only\<close>
  \<open>stepFolder sh name folder dryRun flow =
     tryCatch
       (bindE (execAsync sh (''du -sh "'' @ folder @ ''" 2>/dev/null'')) (\<lambda>size.
        bindE (unless_dry dryRun sh (''rm -rf "'' @ folder @ ''"/* 2>/dev/null'')) (\<lambda>_.
        ret (push_step (JObj [(''name'', JStr name), (''size'', JStr (first_field (trim size))),
                              (''status'', status_word dryRun)]) flow))))
       (\<lambda>e. ret (push_step (JObj [(''name'', JStr name), (''status'', JStr ''skipped'')]) flow))\<close>

definition stepChrome :: "'w shell \<Rightarrow> string option \<Rightarrow> jsval \<Rightarrow> workflow \<Rightarrow> ('w, workflow) act" where
  "stepChrome sh home dryRun flow = stepFolder sh ''Chrome Cache'' (chromeCachePath home) dryRun flow"

definition stepSpotify :: "'w shell \<Rightarrow> string option \<Rightarrow> jsval \<Rightarrow> workflow \<Rightarrow> ('w, workflow) act" where
  "stepSpotify sh home dryRun flow =
     stepFolder sh ''Spotify Cache'' (spotifyCachePath home) dryRun flow"

definition stepPurge ::
  "'w shell \<Rightarrow> string \<Rightarrow> string \<Rightarrow> jsval \<Rightarrow> workflow \<Rightarrow> ('w, workflow) act" where
  \<comment> \<open>steps 7 and 8, which differ in the name and the command only\<close>
  "stepPurge sh name cmd dryRun flow =
     tryCatch
       (bindE (unless_dry dryRun sh cmd) (\<lambda>_.
        ret (push_step (JObj [(''name'', JStr name), (''status'', status_word dryRun)]) flow)))
       (\<lambda>e. ret (push_step (JObj [(''name'', JStr name), (''status'', JStr ''skipped'')]) flow))"

definition stepNpm :: "'w shell \<Rightarrow> jsval \<Rightarrow> workflow \<Rightarrow> ('w, workflow) act" where
  "stepNpm sh dryRun flow = stepPurge sh ''npm Cache'' ''npm cache clean --force 2>/dev/null'' dryRun flow"

definition stepPip :: "'w shell \<Rightarrow> jsval \<Rightarrow> workflow \<Rightarrow> ('w, workflow) act" where
  "stepPip sh dryRun flow = stepPurge sh ''pip Cache'' ''pip cache purge 2>/dev/null'' dryRun flow"

definition stepDocker :: "'w shell \<Rightarrow> jsval \<Rightarrow> jsval \<Rightarrow> jsval \<Rightarrow> workflow \<Rightarrow> ('w, workflow) act" where
  "stepDocker sh includeDocker includeDockerVolumes dryRun flow =
     (if truthy includeDocker then
        tryCatch
          (bindE (execAsync sh
                    ''docker system df --format '{{.TotalCount}} {{.Size}}' 2>/dev/null'')
             (\<lambda>dockerDf.
           bindE (if \<not> truthy dryRun then
                    bindE (execAsync sh ''docker system prune -af 2>/dev/null'') (\<lambda>_.
                    if truthy includeDockerVolumes
                    then bindE (execAsync sh ''docker volume prune -f 2>/dev/null'') (\<lambda>_. ret ())
                    else ret ())
                  else ret ()) (\<lambda>_.
           ret (push_step (JObj [(''name'', JStr ''Docker''), (''detail'', JStr (trim dockerDf)),
                                 (''status'', status_word dryRun),
                                 (''volumesCleaned'', includeDockerVolumes)]) flow))))
          (\<lambda>e. ret (push_step (JObj [(''name'', JStr ''Docker''), (''status'', JStr ''skipped''),
                                      (''note'', JStr ''Docker not running'')]) flow))
      else ret flow)"

text \<open>
  \<^verbatim>\<open>o.available?.replace("G", "") || 0\<close>, as handed to \<^verbatim>\<open>parseFloat\<close>: the text of the
  figure without its first \<^verbatim>\<open>G\<close>, or the number 0 (read by \<^verbatim>\<open>parseFloat\<close> as the text
  \<^verbatim>\<open>0\<close>) when the field is missing or the text is empty.
\<close>

definition avail_text :: "jsval option \<Rightarrow> ('w, string) act" where
  "avail_text state =
     (case state of
        None \<Rightarrow> throw ''Cannot read properties of undefined (reading 'available')''
      | Some obj \<Rightarrow>
          (case field ''available'' obj of
             JStr s \<Rightarrow> ret (if replace_first s ''G'' [] = [] then ''0''
                            else replace_first s ''G'' [])
           | JUndef \<Rightarrow> ret ''0''
           | JNull \<Rightarrow> ret ''0''
           | _ \<Rightarrow> throw ''workflow.before.available?.replace is not a function''))"

definition captureAfter :: "'w shell \<Rightarrow> jsval \<Rightarrow> workflow \<Rightarrow> ('w, workflow) act" where
  "captureAfter sh dryRun flow =
     (if \<not> truthy dryRun then
        tryCatch
          (bindE (execAsync sh ''df -h / | tail -1'') (\<lambda>stdout.
           let flow1 = flow\<lparr>wf_after := Some (disk_state stdout)\<rparr>
           in bindE (avail_text (wf_before flow1)) (\<lambda>beforeText.
              bindE (avail_text (wf_after flow1)) (\<lambda>afterText.
              let beforeAvailGB = parseFloat beforeText;
                  afterAvailGB = parseFloat afterText
              in ret (flow1\<lparr>wf_totalRecovered :=
                        toFixed 1 (num_sub afterAvailGB beforeAvailGB) @ ''G''\<rparr>)))))
          (\<lambda>e. ret (flow\<lparr>wf_after := Some (JObj [(''error'', JStr e)])\<rparr>))
      else ret (flow\<lparr>wf_after := Some (JObj [(''note'', JStr ''Dry run - no changes made'')])\<rparr>))"

definition workflow_obj :: "workflow \<Rightarrow> jsval" where
  "workflow_obj flow =
     JObj ([(''steps'', JArr (wf_steps flow)),
            (''totalRecovered'', JStr (wf_totalRecovered flow)),
            (''dryRun'', wf_dryRun flow)]
           @ (case wf_before flow of None \<Rightarrow> [] | Some b \<Rightarrow> [(''before'', b)])
           @ (case wf_after flow of None \<Rightarrow> [] | Some a \<Rightarrow> [(''after'', a)]))"

definition new_workflow :: "jsval \<Rightarrow> workflow" where
  "new_workflow dryRun =
     \<lparr>wf_steps = [], wf_totalRecovered = ''calculating...'', wf_dryRun = dryRun,
      wf_before = None, wf_after = None\<rparr>"

text \<open>Everything up to, and not including, the final disk status.\<close>

definition cleanupSteps ::
  "'w shell \<Rightarrow> string option \<Rightarrow> jsval \<Rightarrow> jsval \<Rightarrow> jsval \<Rightarrow> ('w, workflow) act" where
  "cleanupSteps sh home includeDocker includeDockerVolumes dryRun =
     bindE (captureBefore sh (new_workflow dryRun)) (\<lambda>f1.
     bindE (stepEmptyTrash sh dryRun f1) (\<lambda>f2.
     bindE (stepGoCache sh dryRun f2) (\<lambda>f3.
     bindE (stepHomebrew sh dryRun f3) (\<lambda>f4.
     bindE (stepChrome sh home dryRun f4) (\<lambda>f5.
     bindE (stepSpotify sh home dryRun f5) (\<lambda>f6.
     bindE (stepNpm sh dryRun f6) (\<lambda>f7.
     bindE (stepPip sh dryRun f7) (\<lambda>f8.
     stepDocker sh includeDocker includeDockerVolumes dryRun f8))))))))"

definition fullCleanupWorkflow ::
  "'w shell \<Rightarrow> string option \<Rightarrow> jsval \<Rightarrow> jsval \<Rightarrow> jsval \<Rightarrow> ('w, jsval) act" where
  "fullCleanupWorkflow sh home includeDocker includeDockerVolumes dryRun =
     bindE (cleanupSteps sh home includeDocker includeDockerVolumes dryRun) (\<lambda>f9.
     bindE (captureAfter sh dryRun f9) (\<lambda>flow.
     ret (workflow_obj flow)))"

definition handleFullCleanupWorkflow :: "'w shell \<Rightarrow> string option \<Rightarrow> args \<Rightarrow> ('w, jsval) act" where
  "handleFullCleanupWorkflow sh home a =
     fullCleanupWorkflow sh home (param a ''includeDocker'' (JBool False))
       (param a ''includeDockerVolumes'' (JBool False)) (param a ''dryRun'' (JBool False))"

subsection \<open>\<^verbatim>\<open>handleAnalyzeLibrary\<close>\<close>

definition library_dirs :: "(string \<times> string) list" where
  "library_dirs =
     [(''Caches'', ''~/Library/Caches''),
      (''Application Support'', ''~/Library/Application Support''),
      (''Containers'', ''~/Library/Containers''),
      (''Developer'', ''~/Library/Developer''),
      (''Fonts'', ''~/Library/Fonts''),
      (''Mail'', ''~/Library/Mail''),
      (''Messages'', ''~/Library/Messages'')]"

definition du_sh :: "'w shell \<Rightarrow> string \<Rightarrow> ('w, string) act" where
  \<open>du_sh sh path = execAsync sh (''du -sh "'' @ path @ ''" 2>/dev/null'')\<close>

definition categoryEntry ::
  "'w shell \<Rightarrow> string option \<Rightarrow> string \<times> string \<Rightarrow> (string \<times> jsval) list
     \<Rightarrow> ('w, (string \<times> jsval) list) act" where
  "categoryEntry sh home dir categories =
     tryCatch
       (bindE (du_sh sh (replace_first (snd dir) ''~'' (env_str home))) (\<lambda>stdout.
        ret (categories @ [(fst dir, JObj [(''size'', JStr (first_field (trim stdout)))])])))
       (\<lambda>e. ret (categories @ [(fst dir, JObj [(''size'', JStr ''N/A'')])]))"

definition last_segment :: "string \<Rightarrow> string" where
  \<comment> \<open>\<^verbatim>\<open>path.split("/").pop()\<close>\<close>
  "last_segment path = (case rev (split_on (CHR ''/'') path) of p # ps \<Rightarrow> p | [] \<Rightarrow> [])"

definition top_cache :: "string \<Rightarrow> jsval" where
  \<comment> \<open>\<^verbatim>\<open>const [size, path] = line.split(/\s+/); return { size, path: path?.split("/").pop() }\<close>\<close>
  "top_cache line =
     (let parts = split_ws line
      in JObj [(''size'', elem_at parts 0),
               (''path'', (case elem_at parts 1 of JStr path \<Rightarrow> JStr (last_segment path)
                           | other \<Rightarrow> JUndef))])"

definition topCaches :: "'w shell \<Rightarrow> ('w, (string \<times> jsval) list) act" where
  "topCaches sh =
     quietly
       (bindE (execAsync sh ''du -sh ~/Library/Caches/*/ 2>/dev/null | sort -hr | head -10'')
          (\<lambda>stdout.
        ret [(''topCaches'', JArr (map top_cache (split_on (CHR 0x0A) (trim stdout))))]))
       []"

definition knownLargeCaches :: "(string \<times> string \<times> string) list" where
  "knownLargeCaches =
     [(''Go Build'', ''~/Library/Caches/go-build'', ''go clean -cache''),
      (''Homebrew'', ''~/Library/Caches/Homebrew'', ''brew cleanup --prune=all''),
      (''Google Chrome'', ''~/Library/Caches/Google/Chrome'',
       ''rm -rf ~/Library/Caches/Google/Chrome/*''),
      (''Xcode DerivedData'', ''~/Library/Developer/Xcode/DerivedData'',
       ''rm -rf ~/Library/Developer/Xcode/DerivedData/*'')]"

definition knownEntry ::
  "'w shell \<Rightarrow> string option \<Rightarrow> string \<times> string \<times> string \<Rightarrow> jsval list
     \<Rightarrow> ('w, jsval list) act" where
  "knownEntry sh home cache found =
     quietly
       (bindE (du_sh sh (replace_first (fst (snd cache)) ''~'' (env_str home))) (\<lambda>stdout.
        ret (found @ [JObj [(''name'', JStr (fst cache)), (''path'', JStr (fst (snd cache))),
                            (''cleanCmd'', JStr (snd (snd cache))),
                            (''size'', JStr (first_field (trim stdout)))]])))
       found"

definition handleAnalyzeLibrary :: "'w shell \<Rightarrow> string option \<Rightarrow> ('w, jsval) act" where
  "handleAnalyzeLibrary sh home =
     bindE (for_each library_dirs (categoryEntry sh home) []) (\<lambda>categories.
     bindE (topCaches sh) (\<lambda>top.
     bindE (for_each knownLargeCaches (knownEntry sh home) []) (\<lambda>known.
     ret (JObj ([(''categories'', JObj categories)] @ top
                @ [(''knownLargeCaches'', JArr known)])))))"

subsection \<open>\<^verbatim>\<open>handleDeveloperCleanup\<close>\<close>

definition nonempty_lines :: "string \<Rightarrow> string list" where
  \<comment> \<open>\<^verbatim>\<open>s.trim().split("\n").filter(Boolean)\<close>\<close>
  "nonempty_lines s = filter (\<lambda>l. l \<noteq> []) (split_on (CHR 0x0A) (trim s))"

definition nodeModuleInfo :: "'w shell \<Rightarrow> string \<Rightarrow> jsval list \<Rightarrow> ('w, jsval list) act" where
  \<open>nodeModuleInfo sh dir info =
     quietly
       (bindE (du_sh sh dir) (\<lambda>size.
        bindE (execAsync sh (''stat -f "%Sm" -t "%Y-%m-%d" "'' @ dir @ ''" 2>/dev/null''))
          (\<lambda>mtime.
        ret (info @ [JObj [(''path'', JStr dir), (''size'', JStr (first_field (trim size))),
                           (''lastModified'', JStr (trim mtime))]]))))
       info\<close>

definition nodeModules ::
  "'w shell \<Rightarrow> jsval \<Rightarrow> (string \<times> jsval) list \<Rightarrow> ('w, (string \<times> jsval) list) act" where
  \<open>nodeModules sh dryRun results =
     tryCatch
       (bindE (execAsync sh
                 ''find ~ -name "node_modules" -type d -prune 2>/dev/null | head -20'')
          (\<lambda>stdout.
        let dirs = nonempty_lines stdout
        in bindE (for_each (take 10 dirs) (nodeModuleInfo sh) []) (\<lambda>nodeModulesInfo.
           ret (results @ [(''nodeModules'',
                  JObj [(''found'', JNum (Fin (real (length dirs)))),
                        (''analyzed'', JArr nodeModulesInfo), (''dryRun'', dryRun)])]))))
       (\<lambda>e. ret (results @ [(''nodeModules'', JObj [(''error'', JStr e)])]))\<close>

definition derivedDataPath :: "string option \<Rightarrow> string" where
  "derivedDataPath home = env_str home @ ''/Library/Developer/Xcode/DerivedData''"

definition archivesPath :: "string option \<Rightarrow> string" where
  "archivesPath home = env_str home @ ''/Library/Developer/Xcode/Archives''"

definition xcodeDerivedData ::
  "'w shell \<Rightarrow> string option \<Rightarrow> jsval \<Rightarrow> (string \<times> jsval) list
     \<Rightarrow> ('w, (string \<times> jsval) list) act" where
  \<open>xcodeDerivedData sh home dryRun results =
     tryCatch
       (bindE (du_sh sh (derivedDataPath home)) (\<lambda>size.
        bindE (unless_dry dryRun sh (''rm -rf "'' @ derivedDataPath home @ ''"/* 2>/dev/null''))
          (\<lambda>_.
        ret (results @ [(''xcodeDerivedData'',
               JObj [(''size'', JStr (first_field (trim size))),
                     (''status'', status_word dryRun)])]))))
       (\<lambda>e. ret (results @ [(''xcodeDerivedData'',
               JObj [(''status'', JStr ''skipped''),
                     (''note'', JStr ''Xcode not installed or empty'')])]))\<close>

definition xcodeArchives ::
  "'w shell \<Rightarrow> string option \<Rightarrow> (string \<times> jsval) list \<Rightarrow> ('w, (string \<times> jsval) list) act" where
  "xcodeArchives sh home results =
     quietly
       (bindE (du_sh sh (archivesPath home)) (\<lambda>size.
        ret (results @ [(''xcodeArchives'',
               JObj [(''size'', JStr (first_field (trim size))),
                     (''note'', JStr ''Review before deleting - contains app builds'')])])))
       results"

definition pyenvVersionInfo ::
  "'w shell \<Rightarrow> string \<Rightarrow> string \<Rightarrow> jsval list \<Rightarrow> ('w, jsval list) act" where
  "pyenvVersionInfo sh currentVersion ver info =
     quietly
       (bindE (execAsync sh (''du -sh ~/.pyenv/versions/'' @ ver @ '' 2>/dev/null'')) (\<lambda>size.
        ret (info @ [JObj [(''version'', JStr ver), (''size'', JStr (first_field (trim size))),
                           (''isCurrent'', JBool (trim ver = trim currentVersion))]])))
       info"

definition pyenvVersions ::
  "'w shell \<Rightarrow> (string \<times> jsval) list \<Rightarrow> ('w, (string \<times> jsval) list) act" where
  "pyenvVersions sh results =
     tryCatch
       (bindE (execAsync sh ''pyenv version-name 2>/dev/null'') (\<lambda>currentVersion.
        bindE (execAsync sh ''ls ~/.pyenv/versions/ 2>/dev/null'') (\<lambda>allVersions.
        bindE (for_each (nonempty_lines allVersions) (pyenvVersionInfo sh currentVersion) [])
          (\<lambda>versionInfo.
        ret (results @ [(''pyenvVersions'',
               JObj [(''current'', JStr (trim currentVersion)), (''versions'', JArr versionInfo),
                     (''note'', JStr ''Run 'pyenv uninstall VERSION' to remove'')])])))))
       (\<lambda>e. ret (results @ [(''pyenvVersions'',
               JObj [(''status'', JStr ''skipped''), (''note'', JStr ''pyenv not installed'')])]))"

definition developerCleanup ::
  "'w shell \<Rightarrow> string option \<Rightarrow> jsval \<Rightarrow> jsval \<Rightarrow> jsval \<Rightarrow> jsval \<Rightarrow> ('w, jsval) act" where
  "developerCleanup sh home cleanNodeModules cleanXcode cleanPyenvOldVersions dryRun =
     bindE (if truthy cleanNodeModules then nodeModules sh dryRun [] else ret []) (\<lambda>r1.
     bindE (if truthy cleanXcode then
              bindE (xcodeDerivedData sh home dryRun r1) (\<lambda>r. xcodeArchives sh home r)
            else ret r1) (\<lambda>r2.
     bindE (if truthy cleanPyenvOldVersions then pyenvVersions sh r2 else ret r2) (\<lambda>results.
     ret (JObj results))))"

definition handleDeveloperCleanup :: "'w shell \<Rightarrow> string option \<Rightarrow> args \<Rightarrow> ('w, jsval) act" where
  "handleDeveloperCleanup sh home a =
     developerCleanup sh home (param a ''cleanNodeModules'' (JBool False))
       (param a ''cleanXcode'' (JBool False)) (param a ''cleanPyenvOldVersions'' (JBool False))
       (param a ''dryRun'' (JBool True))"

subsection \<open>\<^verbatim>\<open>handleCpuUsage\<close>\<close>

definition core_count :: "string \<Rightarrow> jsval" where
  \<comment> \<open>\<^verbatim>\<open>s.trim() !== 'N/A' ? parseInt(s.trim()) : null\<close>\<close>
  "core_count s = (if trim s \<noteq> ''N/A'' then JNum (parseInt (trim s)) else JNull)"

definition cpuUsage :: "'w shell \<Rightarrow> jsval \<Rightarrow> ('w, jsval) act" where
  "cpuUsage sh topN =
     tryCatch
       (bindE (execAsync sh ''sysctl -n vm.loadavg'') (\<lambda>loadAvg.
        bindE (execAsync sh (''top -l 1 -n 0 | grep 'CPU usage'' @ [CHR 0x27])) (\<lambda>cpuInfo.
        bindE (execAsync sh (''ps aux -r | head -'' @ to_str (plus_one topN))) (\<lambda>topProcesses.
        bindE (execAsync sh ''sysctl -n hw.ncpu'') (\<lambda>coreCount.
        bindE (execAsync sh
                 (''sysctl -n hw.perflevel0.physicalcpu 2>/dev/null || echo 'N/A'' @ [CHR 0x27]))
          (\<lambda>perfCores.
        bindE (execAsync sh
                 (''sysctl -n hw.perflevel1.physicalcpu 2>/dev/null || echo 'N/A'' @ [CHR 0x27]))
          (\<lambda>effCores.
        ret (JObj [(''loadAverages'', JStr (trim loadAvg)), (''cpuUsage'', JStr (trim cpuInfo)),
                   (''totalCores'', JNum (parseInt (trim coreCount))),
                   (''performanceCores'', core_count perfCores),
                   (''efficiencyCores'', core_count effCores),
                   (''topProcesses'', JStr (trim topProcesses))]))))))))
       (\<lambda>e. ret (JObj [(''error'', JStr e)]))"

definition handleCpuUsage :: "'w shell \<Rightarrow> args \<Rightarrow> ('w, jsval) act" where
  "handleCpuUsage sh a = cpuUsage sh (param a ''topN'' (JNum (Fin 10)))"

subsection \<open>\<^verbatim>\<open>handleThermalStatus\<close>\<close>

definition handleThermalStatus :: "'w shell \<Rightarrow> ('w, jsval) act" where
  "handleThermalStatus sh =
     tryCatch
       (bindE (execAsync sh
                 (''pmset -g therm 2>/dev/null || echo 'Thermal info not available''
                    @ [CHR 0x27])) (\<lambda>thermalState.
        bindE (quietly
                 (bindE (execAsync sh ''osx-cpu-temp 2>/dev/null'') (\<lambda>stdout. ret (trim stdout)))
                 ''Temperature monitoring requires additional tools (e.g., osx-cpu-temp)'')
          (\<lambda>temperature.
        let isThrottling = (str_includes thermalState ''CPU_Speed_Limit''
                              \<and> \<not> str_includes thermalState ''100'')
        in ret (JObj [(''thermalState'', JStr (trim thermalState)),
                      (''temperature'', JStr temperature),
                      (''isThrottling'', JBool isThrottling),
                      (''recommendation'', JStr
                         (if isThrottling
                          then ''System is thermal throttling. Consider improving ventilation or reducing workload.''
                          else ''Thermal status normal.''))]))))
       (\<lambda>e. ret (JObj [(''error'', JStr e)]))"

subsection \<open>\<^verbatim>\<open>handleBatteryHealth\<close>\<close>

text \<open>
  \<^verbatim>\<open>text.match(/literal(group)/)?.[1]\<close>: the leftmost place where the literal occurs
  and the group matches right after it; \<open>grp\<close> reads the group off the rest of the text.
\<close>

fun match_after :: "string \<Rightarrow> (string \<Rightarrow> string option) \<Rightarrow> string \<Rightarrow> string option" where
  "match_after lit grp [] = (if lit = [] then grp [] else None)"
| "match_after lit grp (c # s) =
     (if take (length lit) (c # s) = lit \<and> grp (drop (length lit) (c # s)) \<noteq> None
      then grp (drop (length lit) (c # s))
      else match_after lit grp s)"

definition grp_digits :: "string \<Rightarrow> string option" where
  \<comment> \<open>\<^verbatim>\<open>(\d+)\<close>\<close>
  "grp_digits r = (if takeWhile is_digit r = [] then None else Some (takeWhile is_digit r))"

definition grp_rest_of_line :: "string \<Rightarrow> string option" where
  \<comment> \<open>\<^verbatim>\<open>(.+)\<close>\<close>
  "grp_rest_of_line r =
     (if takeWhile (\<lambda>c. \<not> is_line_end c) r = [] then None
      else Some (takeWhile (\<lambda>c. \<not> is_line_end c) r))"

definition grp_percent :: "string \<Rightarrow> string option" where
  \<comment> \<open>\<^verbatim>\<open>(\d+%)\<close>\<close>
  "grp_percent r =
     (if takeWhile is_digit r \<noteq> [] \<and> take 1 (dropWhile is_digit r) = ''%''
      then Some (takeWhile is_digit r @ ''%'') else None)"

definition grp_digits_percent :: "string \<Rightarrow> string option" where
  \<comment> \<open>\<^verbatim>\<open>(\d+)%\<close>\<close>
  "grp_digits_percent r =
     (if takeWhile is_digit r \<noteq> [] \<and> take 1 (dropWhile is_digit r) = ''%''
      then Some (takeWhile is_digit r) else None)"

definition or_na :: "string option \<Rightarrow> string" where
  \<comment> \<open>\<^verbatim>\<open>x || "N/A"\<close> for a string or \<^verbatim>\<open>undefined\<close>\<close>
  "or_na x = (case x of None \<Rightarrow> ''N/A'' | Some s \<Rightarrow> if s = [] then ''N/A'' else s)"

definition health_note :: "string \<Rightarrow> string" where
  "health_note maxCapacity =
     (if num_lt (parseInt maxCapacity) 80
      then ''Battery capacity significantly degraded. Consider replacement.''
      else if num_lt (parseInt maxCapacity) 90 then ''Battery showing some wear.''
      else ''Battery health good.'')"

definition handleBatteryHealth :: "'w shell \<Rightarrow> ('w, jsval) act" where
  "handleBatteryHealth sh =
     tryCatch
       (bindE (execAsync sh ''system_profiler SPPowerDataType 2>/dev/null'') (\<lambda>batteryInfo.
        let cycleCount = or_na (match_after ''Cycle Count: '' grp_digits batteryInfo);
            condition = or_na (map_option trim
                                 (match_after ''Condition: '' grp_rest_of_line batteryInfo));
            maxCapacity = or_na (match_after ''Maximum Capacity: '' grp_percent batteryInfo);
            charging = str_includes batteryInfo ''Charging: Yes'';
            fullyCharged = str_includes batteryInfo ''Fully Charged: Yes'';
            powerSource = (if str_includes batteryInfo ''Connected: Yes'' then ''AC Power''
                           else ''Battery'')
        in bindE (execAsync sh ''pmset -g batt'') (\<lambda>pmsetOutput.
           let chargeLevel = or_na (match_after [] grp_digits_percent pmsetOutput)
           in ret (JObj [(''chargeLevel'', JStr (chargeLevel @ ''%'')),
                         (''cycleCount'',
                          (if truthy (JNum (parseInt cycleCount)) then JNum (parseInt cycleCount)
                           else JStr cycleCount)),
                         (''condition'', JStr condition),
                         (''maxCapacity'', JStr maxCapacity),
                         (''isCharging'', JBool charging),
                         (''isFullyCharged'', JBool fullyCharged),
                         (''powerSource'', JStr powerSource),
                         (''healthNote'', JStr (health_note maxCapacity))]))))
       (\<lambda>e. ret (JObj [(''error'', JStr e)]))"

subsection \<open>\<^verbatim>\<open>handleSystemInfo\<close>\<close>

definition commas_for_newlines :: "string \<Rightarrow> string" where
  \<comment> \<open>\<^verbatim>\<open>s.replace(/\n/g, ", ")\<close>\<close>
  "commas_for_newlines s = concat (map (\<lambda>c. if c = CHR 0x0A then '', '' else [c]) s)"

definition handleSystemInfo :: "'w shell \<Rightarrow> ('w, jsval) act" where
  "handleSystemInfo sh =
     tryCatch
       (bindE (execAsync sh ''sw_vers'') (\<lambda>osVersion.
        bindE (execAsync sh ''sysctl -n hw.model'') (\<lambda>model.
        bindE (execAsync sh
                 (''sysctl -n machdep.cpu.brand_string 2>/dev/null || echo 'Apple Silicon''
                    @ [CHR 0x27])) (\<lambda>chip.
        bindE (execAsync sh ''sysctl -n hw.memsize'') (\<lambda>memory.
        bindE (execAsync sh ''uptime'') (\<lambda>uptime.
        bindE (execAsync sh ''df -h / | tail -1'') (\<lambda>disk.
        bindE (execAsync sh ''whoami'') (\<lambda>user.
        bindE (execAsync sh ''hostname'') (\<lambda>hostname.
        let diskParts = split_ws (trim disk)
        in ret (JObj [(''macOS'', JStr (commas_for_newlines (trim osVersion))),
                      (''model'', JStr (trim model)),
                      (''chip'', JStr (trim chip)),
                      (''memoryGB'', JStr
                         (toFixed 0 (num_scale (num_scale (num_scale (parseInt memory)
                            (1 / 1024)) (1 / 1024)) (1 / 1024)) @ '' GB'')),
                      (''uptime'', JStr (trim uptime)),
                      (''disk'', JObj [(''total'', elem_at diskParts 1),
                                       (''used'', elem_at diskParts 2),
                                       (''available'', elem_at diskParts 3),
                                       (''percentUsed'', elem_at diskParts 4)]),
                      (''currentUser'', JStr (trim user)),
                      (''hostname'', JStr (trim hostname))]))))))))))
       (\<lambda>e. ret (JObj [(''error'', JStr e)]))"

subsection \<open>\<^verbatim>\<open>handleProcessList\<close>\<close>

text \<open>
  A row may have fewer pieces than the code reads; \<^verbatim>\<open>parseInt\<close> and \<^verbatim>\<open>parseFloat\<close> then
  read the text \<^verbatim>\<open>undefined\<close>.
\<close>

definition process_row :: "string \<Rightarrow> jsval" where
  "process_row line =
     (let parts = split_ws line
      in JObj [(''user'', elem_at parts 0),
               (''pid'', JNum (parseInt (to_str (elem_at parts 1)))),
               (''cpu'', JNum (parseFloat (to_str (elem_at parts 2)))),
               (''mem'', JNum (parseFloat (to_str (elem_at parts 3)))),
               (''command'', JStr (join_with '' '' (drop 10 parts)))])"

definition sort_flag :: "jsval \<Rightarrow> string" where
  "sort_flag sortBy =
     (if sortBy = JStr ''memory'' then ''-m'' else if sortBy = JStr ''name'' then [] else ''-r'')"

definition processList :: "'w shell \<Rightarrow> jsval \<Rightarrow> jsval \<Rightarrow> jsval \<Rightarrow> ('w, jsval) act" where
  \<open>processList sh sortBy limit pattern =
     tryCatch
       (let sortFlag = sort_flag sortBy;
            cmd = (if truthy pattern
                   then ''ps aux '' @ sortFlag @ '' | grep -i "'' @ to_str pattern
                          @ ''" | head -'' @ to_str limit
                   else ''ps aux '' @ sortFlag @ '' | head -'' @ to_str (plus_one limit))
        in bindE (execAsync sh cmd) (\<lambda>stdout.
           let lines = split_on (CHR 0x0A) (trim stdout)
           in ret (JObj [(''sortedBy'', sortBy), (''header'', elem_at lines 0),
                         (''processes'', JArr (map process_row (drop 1 lines)))])))
       (\<lambda>e. ret (JObj [(''error'', JStr e)]))\<close>

definition handleProcessList :: "'w shell \<Rightarrow> args \<Rightarrow> ('w, jsval) act" where
  "handleProcessList sh a =
     processList sh (param a ''sortBy'' (JStr ''cpu'')) (param a ''limit'' (JNum (Fin 20)))
       (param a ''filter'' (JStr []))"

subsection \<open>\<^verbatim>\<open>handleStartupItems\<close>\<close>

definition launch_agent :: "string \<Rightarrow> jsval" where
  \<comment> \<open>\<^verbatim>\<open>{ path: parts[parts.length - 1], type: "user" }\<close>\<close>
  "launch_agent line =
     (let parts = split_ws line
      in JObj [(''path'', elem_at parts (length parts - 1)), (''type'', JStr ''user'')])"

definition startupItems :: "'w shell \<Rightarrow> jsval \<Rightarrow> ('w, jsval) act" where
  "startupItems sh showDisabled =
     tryCatch
       (bindE (execAsync sh (''ls -la ~/Library/LaunchAgents/*.plist 2>/dev/null || echo ''
                 @ [CHR 0x27, CHR 0x27])) (\<lambda>userAgents.
        bindE (execAsync sh ''launchctl list 2>/dev/null | head -30'') (\<lambda>loadedAgents.
        bindE (execAsync sh (''ls /Library/LaunchAgents/*.plist 2>/dev/null | head -10 || echo ''
                 @ [CHR 0x27, CHR 0x27])) (\<lambda>systemAgents.
        ret (JObj ([(''loginItems'', JArr []),
                    (''launchAgents'',
                     JArr (if trim userAgents \<noteq> []
                           then map launch_agent (split_on (CHR 0x0A) (trim userAgents))
                           else [])),
                    (''launchDaemons'', JArr []),
                    (''loadedAgents'', JStr (trim loadedAgents))]
                   @ (if trim systemAgents \<noteq> []
                      then [(''systemAgents'',
                             JArr (map JStr (split_on (CHR 0x0A) (trim systemAgents))))]
                      else [])))))))
       (\<lambda>e. ret (JObj [(''error'', JStr e)]))"

definition handleStartupItems :: "'w shell \<Rightarrow> args \<Rightarrow> ('w, jsval) act" where
  "handleStartupItems sh a = startupItems sh (param a ''showDisabled'' (JBool False))"

subsection \<open>\<^verbatim>\<open>handleNetworkStatus\<close>\<close>

definition handleNetworkStatus :: "'w shell \<Rightarrow> ('w, jsval) act" where
  "handleNetworkStatus sh =
     tryCatch
       (bindE (execAsync sh (''ifconfig | grep -E '^[a-z]|inet ' | head -20'')) (\<lambda>interfaces.
        bindE (quietly
                 (bindE (execAsync sh
                    (''/System/Library/PrivateFrameworks/Apple80211.framework/Versions/Current/Resources/airport -I 2>/dev/null | grep -E 'SSID|BSSID|channel|RSSI''
                       @ [CHR 0x27])) (\<lambda>wifi. ret (trim wifi)))
                 ''Not connected to WiFi'') (\<lambda>wifi.
        bindE (quietly
                 (bindE (execAsync sh ''curl -s --max-time 2 ifconfig.me'')
                    (\<lambda>externalIp. ret (trim externalIp)))
                 ''Unable to determine'') (\<lambda>externalIp.
        bindE (execAsync sh ''scutil --dns | grep 'nameserver' | head -5'') (\<lambda>dns.
        bindE (execAsync sh ''netstat -an | grep ESTABLISHED | wc -l'') (\<lambda>connCount.
        ret (JObj [(''interfaces'', JStr (trim interfaces)), (''wifi'', JStr wifi),
                   (''externalIp'', JStr externalIp), (''dnsServers'', JStr (trim dns)),
                   (''activeConnections'', JNum (parseInt (trim connCount)))])))))))
       (\<lambda>e. ret (JObj [(''error'', JStr e)]))"

section \<open>The tool registry\<close>

text \<open>
  The array \<^verbatim>\<open>tools\<close>: for every tool its name and the declared properties of its input
  schema, each with its type, its default when one is declared, and the allowed values
  when an \<^verbatim>\<open>enum\<close> is declared (for an array, the \<^verbatim>\<open>enum\<close> of its items). The
  descriptions are documentation and are left out.
\<close>

datatype ptype = TString | TNumber | TBoolean | TArray

record property =
  p_name :: string
  p_type :: ptype
  p_default :: "jsval option"
  p_enum :: "string list option"

record tool =
  t_name :: string
  t_properties :: "property list"

definition decl :: "string \<Rightarrow> ptype \<Rightarrow> jsval option \<Rightarrow> property" where
  "decl n t d = \<lparr>p_name = n, p_type = t, p_default = d, p_enum = None\<rparr>"

definition flag :: "string \<Rightarrow> bool \<Rightarrow> property" where
  "flag n d = decl n TBoolean (Some (JBool d))"

definition tools :: "tool list" where
  "tools =
    [\<lparr>t_name = ''mac_disk_usage'', t_properties =
        [decl ''path'' TString (Some (JStr ''~'')), decl ''depth'' TNumber (Some (JNum (Fin 1)))]\<rparr>,
     \<lparr>t_name = ''mac_go_cache_status'', t_properties = []\<rparr>,
     \<lparr>t_name = ''mac_cleanup_caches'', t_properties =
        [\<lparr>p_name = ''targets'', p_type = TArray, p_default = Some (JArr [JStr ''all'']),
           p_enum = Some [''go'', ''brew'', ''npm'', ''pip'', ''chrome'', ''spotify'', ''all'']\<rparr>,
         flag ''dryRun'' False]\<rparr>,
     \<lparr>t_name = ''mac_cleanup_docker'', t_properties =
        [flag ''includeVolumes'' False, flag ''dryRun'' False]\<rparr>,
     \<lparr>t_name = ''mac_memory_status'', t_properties = []\<rparr>,
     \<lparr>t_name = ''mac_cleanup_recommendations'', t_properties = []\<rparr>,
     \<lparr>t_name = ''mac_empty_trash'', t_properties = [flag ''dryRun'' False]\<rparr>,
     \<lparr>t_name = ''mac_full_cleanup_workflow'', t_properties =
        [flag ''includeDocker'' False, flag ''includeDockerVolumes'' False,
         flag ''dryRun'' False]\<rparr>,
     \<lparr>t_name = ''mac_analyze_library'', t_properties = []\<rparr>,
     \<lparr>t_name = ''mac_developer_cleanup'', t_properties =
        [flag ''cleanNodeModules'' False, flag ''cleanXcode'' False,
         flag ''cleanPyenvOldVersions'' False, flag ''dryRun'' True]\<rparr>,
     \<lparr>t_name = ''mac_cpu_usage'', t_properties =
        [decl ''topN'' TNumber (Some (JNum (Fin 10)))]\<rparr>,
     \<lparr>t_name = ''mac_thermal_status'', t_properties = []\<rparr>,
     \<lparr>t_name = ''mac_battery_health'', t_properties = []\<rparr>,
     \<lparr>t_name = ''mac_system_info'', t_properties = []\<rparr>,
     \<lparr>t_name = ''mac_process_list'', t_properties =
        [\<lparr>p_name = ''sortBy'', p_type = TString, p_default = Some (JStr ''cpu''),
           p_enum = Some [''cpu'', ''memory'', ''name'']\<rparr>,
         decl ''limit'' TNumber (Some (JNum (Fin 20))), decl ''filter'' TString None]\<rparr>,
     \<lparr>t_name = ''mac_kill_process'', t_properties =
        [decl ''pid'' TNumber None, decl ''name'' TString None, flag ''force'' False]\<rparr>,
     \<lparr>t_name = ''mac_startup_items'', t_properties = [flag ''showDisabled'' False]\<rparr>,
     \<lparr>t_name = ''mac_network_status'', t_properties = []\<rparr>]"

text \<open>The argument object that sets every declared parameter to its declared default.\<close>

definition declared_defaults :: "tool \<Rightarrow> args" where
  "declared_defaults t =
     map_of (concat (map (\<lambda>p. case p_default p of None \<Rightarrow> [] | Some d \<Rightarrow> [(p_name p, d)])
                       (t_properties t)))"

section \<open>The dispatcher\<close>

text \<open>
  The handler of \<^verbatim>\<open>CallToolRequestSchema\<close>: \<^verbatim>\<open>args || {}\<close>, then a \<^verbatim>\<open>switch\<close> on the name
  whose default case throws. The arguments of a request are an object or absent. The
  result of \<open>callTool\<close> is the handler's value \<^verbatim>\<open>result\<close>, which the server then wraps as
  the text \<^verbatim>\<open>JSON.stringify(result, null, 2)\<close>; \<open>Inl\<close> is an error thrown out of the
  request handler, that is, a failure of the call itself.
\<close>

definition callTool :: "'w shell \<Rightarrow> string option \<Rightarrow> string \<Rightarrow> args option \<Rightarrow> ('w, jsval) act" where
  "callTool sh home name arguments =
     (let a = (case arguments of None \<Rightarrow> Map.empty | Some given \<Rightarrow> given)
      in if name = ''mac_disk_usage'' then handleDiskUsage sh home a
         else if name = ''mac_go_cache_status'' then handleGoCacheStatus sh
         else if name = ''mac_cleanup_caches'' then handleCleanupCaches sh home a
         else if name = ''mac_cleanup_docker'' then handleDockerCleanup sh a
         else if name = ''mac_memory_status'' then handleMemoryStatus sh
         else if name = ''mac_cleanup_recommendations'' then handleCleanupRecommendations sh
         else if name = ''mac_empty_trash'' then handleEmptyTrash sh a
         else if name = ''mac_full_cleanup_workflow'' then handleFullCleanupWorkflow sh home a
         else if name = ''mac_analyze_library'' then handleAnalyzeLibrary sh home
         else if name = ''mac_developer_cleanup'' then handleDeveloperCleanup sh home a
         else if name = ''mac_cpu_usage'' then handleCpuUsage sh a
         else if name = ''mac_thermal_status'' then handleThermalStatus sh
         else if name = ''mac_battery_health'' then handleBatteryHealth sh
         else if name = ''mac_system_info'' then handleSystemInfo sh
         else if name = ''mac_process_list'' then handleProcessList sh a
         else if name = ''mac_kill_process'' then handleKillProcess sh a
         else if name = ''mac_startup_items'' then handleStartupItems sh a
         else if name = ''mac_network_status'' then handleNetworkStatus sh
         else throw (''Unknown tool: '' @ name))"

section \<open>Reference descriptions\<close>

text \<open>
  The definitions of this section are not part of the program: they say, in the words of
  its specification, what the handlers are compared with.
\<close>



text \<open>
  \<^verbatim>\<open>cleanup_caches\<close>, target by target: the keys in the order of the handler, the command
  of a key in a dry and in a real run, and the entry recorded for a key from the outcome
  of its own command. \<open>run_key\<close> processes one key: a key that is not selected changes
  nothing, a selected key runs its command in the world the earlier keys left behind and
  appends its entry.
\<close>

definition cache_keys :: "string list" where
  "cache_keys = [''go'', ''brew'', ''npm'', ''pip'', ''chrome'', ''spotify'']"

definition cache_command :: "string option \<Rightarrow> jsval \<Rightarrow> string \<Rightarrow> string" where
  \<open>cache_command home dryRun key =
     (if key = ''go'' then
        (if truthy dryRun then ''du -sh $(go env GOCACHE) 2>/dev/null'' else ''go clean -cache'')
      else if key = ''brew'' then
        (if truthy dryRun then ''brew cleanup --dry-run 2>&1 | tail -5''
         else ''brew cleanup --prune=all 2>&1 | tail -3'')
      else if key = ''npm'' then
        (if truthy dryRun then ''npm cache ls 2>/dev/null | wc -l''
         else ''npm cache clean --force 2>/dev/null'')
      else if key = ''pip'' then
        (if truthy dryRun then ''pip cache info 2>/dev/null | grep 'Size'' @ [CHR 0x27]
         else ''pip cache purge 2>/dev/null'')
      else if key = ''chrome'' then
        (if truthy dryRun then ''du -sh "'' @ chromeCachePath home @ ''" 2>/dev/null''
         else ''rm -rf "'' @ chromeCachePath home @ ''"/* 2>/dev/null'')
      else
        (if truthy dryRun then ''du -sh "'' @ spotifyCachePath home @ ''" 2>/dev/null''
         else ''rm -rf "'' @ spotifyCachePath home @ ''"/* 2>/dev/null''))\<close>

definition normal_entry :: "jsval \<Rightarrow> string \<Rightarrow> string \<Rightarrow> jsval" where
  "normal_entry dryRun key stdout =
     (if truthy dryRun then
        JObj [(if key = ''go'' \<or> key = ''brew'' then ''wouldClean''
               else if key = ''npm'' then ''cachedItems''
               else if key = ''pip'' then ''info'' else ''size'', JStr (trim stdout))]
      else if key = ''brew'' then JObj [(''status'', JStr (trim stdout))]
      else JObj [(''status'', JStr ''cleaned'')])"

definition cache_entry :: "jsval \<Rightarrow> string \<Rightarrow> string + string \<Rightarrow> jsval" where
  "cache_entry dryRun key outcome =
     (case outcome of Inl e \<Rightarrow> JObj [(''error'', JStr e)]
      | Inr stdout \<Rightarrow> normal_entry dryRun key stdout)"

definition run_key ::
  "'w shell \<Rightarrow> string option \<Rightarrow> jsval \<Rightarrow> jsval list
     \<Rightarrow> (string \<times> jsval) list \<times> 'w world \<Rightarrow> string \<Rightarrow> (string \<times> jsval) list \<times> 'w world" where
  "run_key sh home dryRun xs acc key =
     (if JStr ''all'' \<in> set xs \<or> JStr key \<in> set xs then
        (case execAsync sh (cache_command home dryRun key) (snd acc) of
           (outcome, s') \<Rightarrow> (fst acc @ [(key, cache_entry dryRun key outcome)], s'))
      else acc)"

text \<open>
  The workflow: the commands that delete something, the commands that only measure
  (\<^verbatim>\<open>df\<close>, \<^verbatim>\<open>du -sh\<close>, \<^verbatim>\<open>go env\<close>, \<^verbatim>\<open>docker system df\<close>), the names of the step records in
  their order, the first command of the Docker step, the captured disk state from the
  outcome of \<^verbatim>\<open>df\<close>, and the text that \<^verbatim>\<open>parseFloat\<close> is given for a captured state. The
  predicates \<open>step_done\<close> and \<open>docker_done\<close> say what one step leaves behind: one more
  record with the step's name and a status, and commands of the expected kind.
\<close>

definition cleaning_commands :: "string option \<Rightarrow> string list" where
  \<open>cleaning_commands home =
     [''rm -rf ~/.Trash/* 2>/dev/null'',
      ''go clean -cache'',
      ''brew cleanup --prune=all 2>&1 | grep -E 'freed|Removing' | tail -1'',
      ''rm -rf "'' @ chromeCachePath home @ ''"/* 2>/dev/null'',
      ''rm -rf "'' @ spotifyCachePath home @ ''"/* 2>/dev/null'',
      ''npm cache clean --force 2>/dev/null'',
      ''pip cache purge 2>/dev/null'',
      ''docker system prune -af 2>/dev/null'',
      ''docker volume prune -f 2>/dev/null'']\<close>

definition measuring :: "string \<Rightarrow> bool" where
  "measuring c =
     (c = ''df -h / | tail -1'' \<or> c = ''go env GOCACHE''
      \<or> c = ''docker system df --format '{{.TotalCount}} {{.Size}}' 2>/dev/null''
      \<or> take 7 c = ''du -sh '')"

definition harmless :: "string option \<Rightarrow> string \<Rightarrow> bool" where
  "harmless home c = (c \<notin> set (cleaning_commands home) \<and> measuring c)"

definition step_done ::
  "string \<Rightarrow> jsval \<Rightarrow> string option \<Rightarrow> workflow \<Rightarrow> 'w world \<Rightarrow> (string + workflow) \<times> 'w world \<Rightarrow> bool" where
  "step_done name d home flow s res =
     (\<exists>r cs s'. res = (Inr (push_step r flow), s')
        \<and> field ''name'' r = JStr name
        \<and> (field ''status'' r = status_word d \<or> field ''status'' r = JStr ''skipped'')
        \<and> issued s' = issued s @ cs
        \<and> (\<forall>c \<in> set cs. take 6 c \<noteq> ''docker'')
        \<and> (truthy d \<longrightarrow> (\<forall>c \<in> set cs. harmless home c)))"

definition docker_df :: string where
  "docker_df = ''docker system df --format '{{.TotalCount}} {{.Size}}' 2>/dev/null''"

definition docker_done ::
  "jsval \<Rightarrow> jsval \<Rightarrow> string option \<Rightarrow> workflow \<Rightarrow> 'w world \<Rightarrow> (string + workflow) \<times> 'w world \<Rightarrow> bool" where
  "docker_done includeDocker d home flow s res =
     (\<exists>rs ds s'. res = (Inr (flow\<lparr>wf_steps := wf_steps flow @ rs\<rparr>), s')
        \<and> map (field ''name'') rs = (if truthy includeDocker then [JStr ''Docker''] else [])
        \<and> (\<forall>r \<in> set rs. field ''status'' r = status_word d \<or> field ''status'' r = JStr ''skipped'')
        \<and> issued s' = issued s @ ds
        \<and> (if truthy includeDocker then take 1 ds = [docker_df] else ds = [])
        \<and> (\<forall>c \<in> set ds. take 6 c = ''docker'')
        \<and> (truthy d \<longrightarrow> (\<forall>c \<in> set ds. harmless home c)))"

definition before_state :: "string + string \<Rightarrow> jsval" where
  "before_state outcome =
     (case outcome of Inl e \<Rightarrow> JObj [(''error'', JStr e)] | Inr stdout \<Rightarrow> disk_state stdout)"

definition step_names :: "jsval \<Rightarrow> string list" where
  "step_names includeDocker =
     [''Empty Trash'', ''Go Build Cache'', ''Homebrew Cache'', ''Chrome Cache'',
      ''Spotify Cache'', ''npm Cache'', ''pip Cache'']
     @ (if truthy includeDocker then [''Docker''] else [])"

definition status_ok :: "jsval \<Rightarrow> jsval \<Rightarrow> bool" where
  "status_ok d r = (field ''status'' r = status_word d \<or> field ''status'' r = JStr ''skipped'')"

definition available_text :: "jsval \<Rightarrow> string" where
  "available_text state =
     (case field ''available'' state of
        JStr t \<Rightarrow> if replace_first t ''G'' [] = [] then ''0'' else replace_first t ''G'' []
      | other \<Rightarrow> ''0'')"

text \<open>
  Which failure a payload reports. A machine \<open>records\<close> its commands when its state holds
  a trace to which every command appends itself with its outcome; \<open>traced\<close> turns any
  machine into one that does. The handlers of \<open>one_try_tools\<close> are one \<^verbatim>\<open>try\<close> block
  whose \<^verbatim>\<open>catch\<close> returns \<open>error_payload\<close>; three of their commands stand in a \<^verbatim>\<open>try\<close> of
  their own whose \<^verbatim>\<open>catch\<close> puts a fixed text in place of the output
  (\<open>optional_commands\<close>). \<open>failure_gives tr outcome m\<close>: whenever a command that \<open>m\<close> ran,
  other than an optional one, failed with message \<open>e\<close>, the outcome of \<open>m\<close> is \<open>outcome e\<close>.
\<close>

type_synonym trace = "(string \<times> (string + string)) list"


definition traced :: "'w shell \<Rightarrow> ('w \<times> trace) shell" where
  "traced sh mt cmd = (case sh (fst mt) cmd of (r, m') \<Rightarrow> (r, (m', snd mt @ [(cmd, r)])))"











definition payload :: "(string + jsval) \<times> 'w world \<Rightarrow> jsval" where
  "payload res = (case fst res of Inr r \<Rightarrow> r | Inl e \<Rightarrow> JUndef)"

definition items :: "jsval \<Rightarrow> jsval list" where
  "items v = (case v of JArr xs \<Rightarrow> xs | other \<Rightarrow> [])"

section \<open>Example machines\<close>

text \<open>A machine on which every command succeeds; \<^verbatim>\<open>pgrep\<close> finds process 4242.\<close>

definition pgrep_shell :: "nat shell" where
  \<open>pgrep_shell m cmd =
     (if take 5 cmd = ''pgrep'' then (Inr (''4242'' @ [CHR 0x0A]), Suc m) else (Inr [], Suc m))\<close>

definition fresh :: "nat world" where
  "fresh = \<lparr>machine = 0, issued = []\<rparr>"

text \<open>A machine on which every command fails.\<close>

definition dead_shell :: "nat shell" where
  "dead_shell m cmd = (Inl ''spawn /bin/sh ENOENT'', Suc m)"

text \<open>A machine without Homebrew: every other command succeeds.\<close>

definition no_brew :: "nat shell" where
  "no_brew m cmd =
     (if take 4 cmd = ''brew'' then (Inl ''/bin/sh: brew: command not found'', Suc m)
      else (Inr (''ok'' @ [CHR 0x0A]), Suc m))"

text \<open>A machine whose \<^verbatim>\<open>du -sh\<close> reports a given figure for the Go build cache.\<close>

definition du_reports :: "string \<Rightarrow> nat shell" where
  "du_reports figure m cmd =
     (if cmd = ''go env GOCACHE''
      then (Inr (''/Users/me/Library/Caches/go-build'' @ [CHR 0x0A]), Suc m)
      else (Inr (figure @ [CHR 0x09] @ ''/Users/me/Library/Caches/go-build'' @ [CHR 0x0A]), Suc m))"



text \<open>
  A machine whose \<^verbatim>\<open>df\<close> fails either the first time it is asked (the flag set) or every
  time but the first, and prints a fixed line otherwise; every other command succeeds.
\<close>

definition df_text :: string where
  "df_text = ''/dev/disk3s1   460Gi  300Gi  150Gi    67%  500k  4.2G    0%   /'' @ [CHR 0x0A]"

definition flaky_df :: "bool \<Rightarrow> nat shell" where
  "flaky_df first m cmd =
     (if cmd = ''df -h / | tail -1'' then
        (if (m = 0) = first then (Inl ''df: cannot read table of mounted file systems'', Suc m)
         else (Inr df_text, Suc m))
      else (Inr (''1.5G'' @ [CHR 0x09] @ ''/some/folder'' @ [CHR 0x0A]), Suc m))"

text \<open>A machine on which every command succeeds and prints the same line.\<close>

definition folder_text :: string where
  "folder_text = ''1.5G'' @ [CHR 0x09] @ ''/some/folder'' @ [CHR 0x0A]"

definition healthy :: "nat shell" where
  "healthy m cmd = (Inr folder_text, Suc m)"


section \<open>Properties\<close>

subsection \<open>Handlers that cannot throw\<close>































subsection \<open>\<^verbatim>\<open>cleanup_caches\<close> target by target\<close>

lemma cache_step_eq:
  assumes "(if truthy d then dc else cc) = cache_command home d key"
    and "\<And>out. (if truthy d then dr out else cr out) = normal_entry d key out"
  shows "bindE (cache_step (JStr ''all'' \<in> set xs) (JArr xs) key
                  (cache_block sh d dc dr cc cr) results) K s =
         (case run_key sh home d xs (results, s) key of (res', s') \<Rightarrow> K res' s')"
  using assms
  by (auto simp: cache_step_def cache_block_def run_key_def cache_entry_def js_includes_def
      bindE_def ret_def tryCatch_def split: prod.splits sum.splits)

lemma cleanup_closed:
  "cleanupCaches sh home (JArr xs) dryRun w =
     (case foldl (run_key sh home dryRun xs) ([], w) cache_keys of
        (results, w') \<Rightarrow>
          (Inr (JObj [(''dryRun'', dryRun), (''results'', JObj results)]), w'))"
proof -
  have go: "\<And>K r s. bindE (cache_step (JStr ''all'' \<in> set xs) (JArr xs) ''go'' (goBlock sh dryRun) r) K s
      = (case run_key sh home dryRun xs (r, s) ''go'' of (res', s') \<Rightarrow> K res' s')"
    unfolding goBlock_def
    by (rule cache_step_eq) (simp_all add: cache_command_def normal_entry_def trimmed_as_def cleaned_def)
  have brew: "\<And>K r s. bindE (cache_step (JStr ''all'' \<in> set xs) (JArr xs) ''brew'' (brewBlock sh dryRun) r) K s
      = (case run_key sh home dryRun xs (r, s) ''brew'' of (res', s') \<Rightarrow> K res' s')"
    unfolding brewBlock_def
    by (rule cache_step_eq) (simp_all add: cache_command_def normal_entry_def trimmed_as_def cleaned_def)
  have npm: "\<And>K r s. bindE (cache_step (JStr ''all'' \<in> set xs) (JArr xs) ''npm'' (npmBlock sh dryRun) r) K s
      = (case run_key sh home dryRun xs (r, s) ''npm'' of (res', s') \<Rightarrow> K res' s')"
    unfolding npmBlock_def
    by (rule cache_step_eq) (simp_all add: cache_command_def normal_entry_def trimmed_as_def cleaned_def)
  have pip: "\<And>K r s. bindE (cache_step (JStr ''all'' \<in> set xs) (JArr xs) ''pip'' (pipBlock sh dryRun) r) K s
      = (case run_key sh home dryRun xs (r, s) ''pip'' of (res', s') \<Rightarrow> K res' s')"
    unfolding pipBlock_def
    by (rule cache_step_eq) (simp_all add: cache_command_def normal_entry_def trimmed_as_def cleaned_def)
  have chrome: "\<And>K r s. bindE (cache_step (JStr ''all'' \<in> set xs) (JArr xs) ''chrome'' (chromeBlock sh home dryRun) r) K s
      = (case run_key sh home dryRun xs (r, s) ''chrome'' of (res', s') \<Rightarrow> K res' s')"
    unfolding chromeBlock_def
    by (rule cache_step_eq) (simp_all add: cache_command_def normal_entry_def trimmed_as_def cleaned_def)
  have spotify: "\<And>K r s. bindE (cache_step (JStr ''all'' \<in> set xs) (JArr xs) ''spotify'' (spotifyBlock sh home dryRun) r) K s
      = (case run_key sh home dryRun xs (r, s) ''spotify'' of (res', s') \<Rightarrow> K res' s')"
    unfolding spotifyBlock_def
    by (rule cache_step_eq) (simp_all add: cache_command_def normal_entry_def trimmed_as_def cleaned_def)
  have start: "\<And>K s. bindE (js_includes ''targets'' (JArr xs) ''all'') K s = K (JStr ''all'' \<in> set xs) s"
    by (simp add: js_includes_def bindE_def ret_def)
  show ?thesis
    unfolding cleanupCaches_def start go brew npm pip chrome spotify cache_keys_def
    by (simp add: ret_def split: prod.splits)
qed

lemma foldl_unchanged: "(\<And>k acc. k \<in> set ks \<Longrightarrow> f acc k = acc) \<Longrightarrow> foldl f acc ks = acc"
  by (induction ks arbitrary: acc) simp_all

lemma run_key_unselected:
  "JStr ''all'' \<notin> set xs \<Longrightarrow> JStr k \<notin> set xs \<Longrightarrow> run_key sh home d xs acc k = acc"
  by (simp add: run_key_def)

lemma run_key_cong:
  "(JStr ''all'' \<in> set xs) = (JStr ''all'' \<in> set ys) \<Longrightarrow> (JStr k \<in> set xs) = (JStr k \<in> set ys) \<Longrightarrow>
     run_key sh home d xs acc k = run_key sh home d ys acc k"
  by (simp add: run_key_def)

subsection \<open>The steps of the workflow\<close>

lemma trash_done: "step_done ''Empty Trash'' d home flow s (stepEmptyTrash sh d flow s)"
  unfolding step_done_def stepEmptyTrash_def
  by (auto simp: tryCatch_def bindE_def execAsync_def ret_def unless_dry_def status_word_def
      cleaning_commands_def harmless_def measuring_def docker_df_def split: prod.splits sum.splits)

lemma go_done: "step_done ''Go Build Cache'' d home flow s (stepGoCache sh d flow s)"
  unfolding step_done_def stepGoCache_def
  by (auto simp: tryCatch_def bindE_def execAsync_def ret_def unless_dry_def status_word_def
      cleaning_commands_def harmless_def measuring_def docker_df_def split: prod.splits sum.splits)

lemma homebrew_done: "step_done ''Homebrew Cache'' d home flow s (stepHomebrew sh d flow s)"
  unfolding step_done_def stepHomebrew_def
  by (auto simp: tryCatch_def bindE_def execAsync_def ret_def status_word_def
      cleaning_commands_def harmless_def measuring_def docker_df_def split: prod.splits sum.splits)

lemma folder_done: "step_done name d home flow s (stepFolder sh name folder d flow s)"
  unfolding step_done_def stepFolder_def
  by (auto simp: tryCatch_def bindE_def execAsync_def ret_def unless_dry_def status_word_def
      cleaning_commands_def harmless_def measuring_def docker_df_def split: prod.splits sum.splits)

lemma purge_done:
  "take 6 cmd \<noteq> ''docker'' \<Longrightarrow> step_done name d home flow s (stepPurge sh name cmd d flow s)"
  unfolding step_done_def stepPurge_def
  by (auto simp: tryCatch_def bindE_def execAsync_def ret_def unless_dry_def status_word_def
      split: prod.splits sum.splits)

lemma chrome_done: "step_done ''Chrome Cache'' d home flow s (stepChrome sh home d flow s)"
  unfolding stepChrome_def by (rule folder_done)

lemma spotify_done: "step_done ''Spotify Cache'' d home flow s (stepSpotify sh home d flow s)"
  unfolding stepSpotify_def by (rule folder_done)

lemma npm_done: "step_done ''npm Cache'' d home flow s (stepNpm sh d flow s)"
  unfolding stepNpm_def by (rule purge_done) simp

lemma pip_done: "step_done ''pip Cache'' d home flow s (stepPip sh d flow s)"
  unfolding stepPip_def by (rule purge_done) simp

lemma docker_step_done: "docker_done iD d home flow s (stepDocker sh iD iV d flow s)"
proof (cases "truthy iD")
  case False
  then show ?thesis
    unfolding docker_done_def stepDocker_def
    by (auto simp: ret_def intro!: exI [of _ "[]"])
next
  case True
  then have "\<exists>r ds s'. stepDocker sh iD iV d flow s = (Inr (push_step r flow), s')
        \<and> field ''name'' r = JStr ''Docker''
        \<and> (field ''status'' r = status_word d \<or> field ''status'' r = JStr ''skipped'')
        \<and> issued s' = issued s @ ds
        \<and> take 1 ds = [docker_df]
        \<and> (\<forall>c \<in> set ds. take 6 c = ''docker'')
        \<and> (truthy d \<longrightarrow> (\<forall>c \<in> set ds. harmless home c))"
    unfolding stepDocker_def docker_df_def
    by (auto simp: tryCatch_def bindE_def execAsync_def ret_def status_word_def
        cleaning_commands_def harmless_def measuring_def docker_df_def split: prod.splits sum.splits)
  then obtain r ds s' where "stepDocker sh iD iV d flow s = (Inr (push_step r flow), s')"
    "field ''name'' r = JStr ''Docker''"
    "field ''status'' r = status_word d \<or> field ''status'' r = JStr ''skipped''"
    "issued s' = issued s @ ds" "take 1 ds = [docker_df]" "\<forall>c \<in> set ds. take 6 c = ''docker''"
    "truthy d \<longrightarrow> (\<forall>c \<in> set ds. harmless home c)"
    by blast
  with True show ?thesis
    unfolding docker_done_def
    by (intro exI [of _ "[r]"] exI [of _ ds] exI [of _ s']) (simp add: push_step_def)
qed

lemma captureBefore_eq:
  "captureBefore sh flow s =
     (Inr (flow\<lparr>wf_before := Some (before_state (fst (sh (machine s) ''df -h / | tail -1'')))\<rparr>),
      \<lparr>machine = snd (sh (machine s) ''df -h / | tail -1''),
       issued = issued s @ [''df -h / | tail -1'']\<rparr>)"
  by (simp add: captureBefore_def tryCatch_def bindE_def execAsync_def ret_def before_state_def
      split: prod.splits sum.splits)

lemma steps_shape:
  "\<exists>flow s' cs ds. cleanupSteps sh home iD iV d w = (Inr flow, s')
     \<and> map (field ''name'') (wf_steps flow) = map JStr (step_names iD)
     \<and> (\<forall>r \<in> set (wf_steps flow). status_ok d r)
     \<and> wf_totalRecovered flow = ''calculating...'' \<and> wf_dryRun flow = d
     \<and> wf_before flow = Some (before_state (fst (sh (machine w) ''df -h / | tail -1'')))
     \<and> wf_after flow = None
     \<and> issued s' = issued w @ [''df -h / | tail -1''] @ cs @ ds
     \<and> (\<forall>c \<in> set cs. take 6 c \<noteq> ''docker'')
     \<and> (if truthy iD then take 1 ds = [docker_df] else ds = [])
     \<and> (\<forall>c \<in> set ds. take 6 c = ''docker'')
     \<and> (truthy d \<longrightarrow> (\<forall>c \<in> set (cs @ ds). harmless home c))"
proof -
  let ?df = "''df -h / | tail -1''"
  define f1 where "f1 = (new_workflow d)\<lparr>wf_before := Some (before_state (fst (sh (machine w) ?df)))\<rparr>"
  define s1 :: "'a world" where "s1 = \<lparr>machine = snd (sh (machine w) ?df), issued = issued w @ [?df]\<rparr>"
  have e1: "captureBefore sh (new_workflow d) w = (Inr f1, s1)"
    by (simp add: captureBefore_eq f1_def s1_def)
  obtain r2 c2 s2 where e2: "stepEmptyTrash sh d f1 s1 = (Inr (push_step r2 f1), s2)"
    and p2: "field ''name'' r2 = JStr ''Empty Trash''" "status_ok d r2" "issued s2 = issued s1 @ c2"
      "\<forall>c \<in> set c2. take 6 c \<noteq> ''docker''"
      "truthy d \<longrightarrow> (\<forall>c \<in> set c2. harmless home c)"
    using trash_done [of d home f1 s1 sh] unfolding step_done_def status_ok_def by blast
  define f2 where "f2 = push_step r2 f1"
  obtain r3 c3 s3 where e3: "stepGoCache sh d f2 s2 = (Inr (push_step r3 f2), s3)"
    and p3: "field ''name'' r3 = JStr ''Go Build Cache''" "status_ok d r3" "issued s3 = issued s2 @ c3"
      "\<forall>c \<in> set c3. take 6 c \<noteq> ''docker''"
      "truthy d \<longrightarrow> (\<forall>c \<in> set c3. harmless home c)"
    using go_done [of d home f2 s2 sh] unfolding step_done_def status_ok_def by blast
  define f3 where "f3 = push_step r3 f2"
  obtain r4 c4 s4 where e4: "stepHomebrew sh d f3 s3 = (Inr (push_step r4 f3), s4)"
    and p4: "field ''name'' r4 = JStr ''Homebrew Cache''" "status_ok d r4" "issued s4 = issued s3 @ c4"
      "\<forall>c \<in> set c4. take 6 c \<noteq> ''docker''"
      "truthy d \<longrightarrow> (\<forall>c \<in> set c4. harmless home c)"
    using homebrew_done [of d home f3 s3 sh] unfolding step_done_def status_ok_def by blast
  define f4 where "f4 = push_step r4 f3"
  obtain r5 c5 s5 where e5: "stepChrome sh home d f4 s4 = (Inr (push_step r5 f4), s5)"
    and p5: "field ''name'' r5 = JStr ''Chrome Cache''" "status_ok d r5" "issued s5 = issued s4 @ c5"
      "\<forall>c \<in> set c5. take 6 c \<noteq> ''docker''"
      "truthy d \<longrightarrow> (\<forall>c \<in> set c5. harmless home c)"
    using chrome_done [of d home f4 s4 sh] unfolding step_done_def status_ok_def by blast
  define f5 where "f5 = push_step r5 f4"
  obtain r6 c6 s6 where e6: "stepSpotify sh home d f5 s5 = (Inr (push_step r6 f5), s6)"
    and p6: "field ''name'' r6 = JStr ''Spotify Cache''" "status_ok d r6" "issued s6 = issued s5 @ c6"
      "\<forall>c \<in> set c6. take 6 c \<noteq> ''docker''"
      "truthy d \<longrightarrow> (\<forall>c \<in> set c6. harmless home c)"
    using spotify_done [of d home f5 s5 sh] unfolding step_done_def status_ok_def by blast
  define f6 where "f6 = push_step r6 f5"
  obtain r7 c7 s7 where e7: "stepNpm sh d f6 s6 = (Inr (push_step r7 f6), s7)"
    and p7: "field ''name'' r7 = JStr ''npm Cache''" "status_ok d r7" "issued s7 = issued s6 @ c7"
      "\<forall>c \<in> set c7. take 6 c \<noteq> ''docker''"
      "truthy d \<longrightarrow> (\<forall>c \<in> set c7. harmless home c)"
    using npm_done [of d home f6 s6 sh] unfolding step_done_def status_ok_def by blast
  define f7 where "f7 = push_step r7 f6"
  obtain r8 c8 s8 where e8: "stepPip sh d f7 s7 = (Inr (push_step r8 f7), s8)"
    and p8: "field ''name'' r8 = JStr ''pip Cache''" "status_ok d r8" "issued s8 = issued s7 @ c8"
      "\<forall>c \<in> set c8. take 6 c \<noteq> ''docker''"
      "truthy d \<longrightarrow> (\<forall>c \<in> set c8. harmless home c)"
    using pip_done [of d home f7 s7 sh] unfolding step_done_def status_ok_def by blast
  define f8 where "f8 = push_step r8 f7"
  obtain rs ds s9 where e9: "stepDocker sh iD iV d f8 s8 = (Inr (f8\<lparr>wf_steps := wf_steps f8 @ rs\<rparr>), s9)"
    and p9: "map (field ''name'') rs = (if truthy iD then [JStr ''Docker''] else [])"
      "\<forall>r \<in> set rs. status_ok d r" "issued s9 = issued s8 @ ds"
      "if truthy iD then take 1 ds = [docker_df] else ds = []"
      "\<forall>c \<in> set ds. take 6 c = ''docker''"
      "truthy d \<longrightarrow> (\<forall>c \<in> set ds. harmless home c)"
    using docker_step_done [of iD d home f8 s8 sh iV] unfolding docker_done_def status_ok_def by blast
  have run: "cleanupSteps sh home iD iV d w = (Inr (f8\<lparr>wf_steps := wf_steps f8 @ rs\<rparr>), s9)"
    unfolding cleanupSteps_def
    by (simp only: bindE_def e1 e2 e3 e4 e5 e6 e7 e8 e9 prod.case sum.case
        f2_def [symmetric] f3_def [symmetric] f4_def [symmetric] f5_def [symmetric]
        f6_def [symmetric] f7_def [symmetric] f8_def [symmetric])
  have steps: "wf_steps f8 = [r2, r3, r4, r5, r6, r7, r8]"
    and rest: "wf_totalRecovered f8 = ''calculating...''" "wf_dryRun f8 = d"
      "wf_before f8 = Some (before_state (fst (sh (machine w) ?df)))" "wf_after f8 = None"
    by (simp_all add: f8_def f7_def f6_def f5_def f4_def f3_def f2_def f1_def push_step_def
        new_workflow_def)
  have log: "issued s9 = issued w @ [?df] @ (c2 @ c3 @ c4 @ c5 @ c6 @ c7 @ c8) @ ds"
    by (simp add: p2 p3 p4 p5 p6 p7 p8 p9 s1_def)
  have names: "map (field ''name'') (wf_steps (f8\<lparr>wf_steps := wf_steps f8 @ rs\<rparr>)) =
      map JStr (step_names iD)"
    by (simp add: steps p2(1) p3(1) p4(1) p5(1) p6(1) p7(1) p8(1) p9(1) step_names_def)
  have stats: "\<forall>r \<in> set (wf_steps (f8\<lparr>wf_steps := wf_steps f8 @ rs\<rparr>)). status_ok d r"
    using p2(2) p3(2) p4(2) p5(2) p6(2) p7(2) p8(2) p9(2) by (simp add: steps)
  have nodocker: "\<forall>c \<in> set (c2 @ c3 @ c4 @ c5 @ c6 @ c7 @ c8). take 6 c \<noteq> ''docker''"
    using p2(4) p3(4) p4(4) p5(4) p6(4) p7(4) p8(4) by (simp add: ball_Un)
  have dry: "truthy d \<longrightarrow>
      (\<forall>c \<in> set ((c2 @ c3 @ c4 @ c5 @ c6 @ c7 @ c8) @ ds). harmless home c)"
    using p2(5) p3(5) p4(5) p5(5) p6(5) p7(5) p8(5) p9(6) by (simp add: ball_Un)
  show ?thesis
  proof (intro exI conjI)
    show "cleanupSteps sh home iD iV d w = (Inr (f8\<lparr>wf_steps := wf_steps f8 @ rs\<rparr>), s9)"
      by (rule run)
    show "map (field ''name'') (wf_steps (f8\<lparr>wf_steps := wf_steps f8 @ rs\<rparr>)) =
        map JStr (step_names iD)"
      by (rule names)
    show "\<forall>r \<in> set (wf_steps (f8\<lparr>wf_steps := wf_steps f8 @ rs\<rparr>)). status_ok d r"
      by (rule stats)
    show "wf_totalRecovered (f8\<lparr>wf_steps := wf_steps f8 @ rs\<rparr>) = ''calculating...''"
      by (simp add: rest)
    show "wf_dryRun (f8\<lparr>wf_steps := wf_steps f8 @ rs\<rparr>) = d"
      by (simp add: rest)
    show "wf_before (f8\<lparr>wf_steps := wf_steps f8 @ rs\<rparr>) =
        Some (before_state (fst (sh (machine w) ?df)))"
      by (simp add: rest)
    show "wf_after (f8\<lparr>wf_steps := wf_steps f8 @ rs\<rparr>) = None"
      by (simp add: rest)
    show "issued s9 = issued w @ [?df] @ (c2 @ c3 @ c4 @ c5 @ c6 @ c7 @ c8) @ ds"
      by (rule log)
    show "\<forall>c \<in> set (c2 @ c3 @ c4 @ c5 @ c6 @ c7 @ c8). take 6 c \<noteq> ''docker''"
      by (rule nodocker)
    show "if truthy iD then take 1 ds = [docker_df] else ds = []"
      by (rule p9(4))
    show "\<forall>c \<in> set ds. take 6 c = ''docker''"
      by (rule p9(5))
    show "truthy d \<longrightarrow>
        (\<forall>c \<in> set ((c2 @ c3 @ c4 @ c5 @ c6 @ c7 @ c8) @ ds). harmless home c)"
      by (rule dry)
  qed
qed

lemma avail_text_disk:
  "avail_text (Some (disk_state out)) s = (Inr (available_text (disk_state out)), s)"
  by (simp add: avail_text_def available_text_def disk_state_def elem_at_def ret_def Let_def)

lemma avail_text_error:
  "avail_text (Some (JObj [(''error'', JStr e)])) s = (Inr ''0'', s)"
  by (simp add: avail_text_def ret_def)

lemma avail_text_before:
  "avail_text (Some (before_state outcome)) s = (Inr (available_text (before_state outcome)), s)"
  by (cases outcome) (simp_all add: before_state_def avail_text_disk avail_text_error available_text_def)

lemma captureAfter_dry:
  "truthy d \<Longrightarrow> captureAfter sh d flow s =
     (Inr (flow\<lparr>wf_after := Some (JObj [(''note'', JStr ''Dry run - no changes made'')])\<rparr>), s)"
  by (simp add: captureAfter_def ret_def)

lemma captureAfter_fail:
  "\<not> truthy d \<Longrightarrow> fst (sh (machine s) ''df -h / | tail -1'') = Inl e \<Longrightarrow>
     captureAfter sh d flow s =
       (Inr (flow\<lparr>wf_after := Some (JObj [(''error'', JStr e)])\<rparr>),
        \<lparr>machine = snd (sh (machine s) ''df -h / | tail -1''),
         issued = issued s @ [''df -h / | tail -1'']\<rparr>)"
proof -
  assume d: "\<not> truthy d" and "fst (sh (machine s) ''df -h / | tail -1'') = Inl e"
  then obtain m where "sh (machine s) ''df -h / | tail -1'' = (Inl e, m)"
    by (cases "sh (machine s) ''df -h / | tail -1''") auto
  with d show ?thesis
    by (simp add: captureAfter_def tryCatch_def bindE_def execAsync_def ret_def)
qed

lemma captureAfter_ok:
  "\<not> truthy d \<Longrightarrow> fst (sh (machine s) ''df -h / | tail -1'') = Inr out \<Longrightarrow>
   wf_before flow = Some (before_state outcome) \<Longrightarrow>
     captureAfter sh d flow s =
       (Inr (flow\<lparr>wf_after := Some (disk_state out),
                  wf_totalRecovered :=
                    toFixed 1 (num_sub (parseFloat (available_text (disk_state out)))
                                 (parseFloat (available_text (before_state outcome)))) @ ''G''\<rparr>),
        \<lparr>machine = snd (sh (machine s) ''df -h / | tail -1''),
         issued = issued s @ [''df -h / | tail -1'']\<rparr>)"
proof -
  assume d: "\<not> truthy d" and b: "wf_before flow = Some (before_state outcome)"
    and "fst (sh (machine s) ''df -h / | tail -1'') = Inr out"
  then obtain m where "sh (machine s) ''df -h / | tail -1'' = (Inr out, m)"
    by (cases "sh (machine s) ''df -h / | tail -1''") auto
  with d b show ?thesis
    by (simp add: captureAfter_def tryCatch_def bindE_def execAsync_def ret_def avail_text_disk
        avail_text_before Let_def)
qed

lemma captureAfter_frame:
  "wf_before flow = Some (before_state outcome) \<Longrightarrow>
   \<exists>flow' s'. captureAfter sh d flow s = (Inr flow', s')
      \<and> wf_steps flow' = wf_steps flow \<and> wf_dryRun flow' = wf_dryRun flow
      \<and> wf_before flow' = wf_before flow \<and> wf_after flow' \<noteq> None
      \<and> issued s' = issued s @ (if truthy d then [] else [''df -h / | tail -1''])"
proof (cases "truthy d")
  case True
  then show ?thesis by (simp add: captureAfter_dry)
next
  case False
  assume b: "wf_before flow = Some (before_state outcome)"
  show ?thesis
  proof (cases "fst (sh (machine s) ''df -h / | tail -1'')")
    case (Inl e)
    with False show ?thesis by (simp add: captureAfter_fail)
  next
    case (Inr out)
    with False b show ?thesis by (simp add: captureAfter_ok)
  qed
qed

lemma parseFloat_zero: "parseFloat ''0'' = Fin 0"
  by (simp add: parseFloat_def split_sign_def is_space_def is_digit_def radix_val_def
      digit_val_def exponent_part_def scale10_def)

subsection \<open>Failures that reach the payload\<close>


























lemma traced_same:
  "fst (traced sh (m, t) c) = fst (sh m c) \<and> fst (snd (traced sh (m, t) c)) = snd (sh m c)"
  by (simp add: traced_def split: prod.splits)


subsection \<open>A dry run next to a real run\<close>















subsection \<open>\<^verbatim>\<open>mac_kill_process\<close>\<close>

text \<open>
  Claim C8. Called with neither \<^verbatim>\<open>pid\<close> nor \<^verbatim>\<open>name\<close>, \<^verbatim>\<open>handleKillProcess\<close> returns
  \<^verbatim>\<open>{success: false, error: "Must provide either pid or name"}\<close> and leaves the world as it
  was: no command is issued. With a (truthy) \<^verbatim>\<open>pid\<close> the one command issued is
  \<^verbatim>\<open>kill -15 pid\<close>, or \<^verbatim>\<open>kill -9 pid\<close> when \<^verbatim>\<open>force\<close> is set. With no usable \<^verbatim>\<open>pid\<close> and a
  \<^verbatim>\<open>name\<close>, the first command is \<^verbatim>\<open>pgrep -f "name" | head -1\<close>, the first match; when it
  prints a process id, the second command sends the same signal to that id.
\<close>

theorem kill_process_contract:
  \<open>(arg a ''pid'' = JUndef \<and> arg a ''name'' = JUndef \<longrightarrow>
      handleKillProcess sh a w =
        (Inr (JObj [(''success'', JBool False),
                    (''error'', JStr ''Must provide either pid or name'')]), w))
   \<and> (truthy (arg a ''pid'') \<longrightarrow>
        issued (snd (handleKillProcess sh a w)) =
          issued w @ [''kill '' @ (if truthy (param a ''force'' (JBool False)) then ''-9'' else ''-15'')
                        @ '' '' @ to_str (arg a ''pid'')])
   \<and> (\<not> truthy (arg a ''pid'') \<and> truthy (arg a ''name'') \<longrightarrow>
        issued (snd (handleKillProcess sh a w)) =
          issued w @ [''pgrep -f "'' @ to_str (arg a ''name'') @ ''" | head -1''] @
          (case fst (sh (machine w) (''pgrep -f "'' @ to_str (arg a ''name'') @ ''" | head -1'')) of
             Inl e \<Rightarrow> []
           | Inr out \<Rightarrow>
               if trim out = [] then []
               else [''kill '' @ (if truthy (param a ''force'' (JBool False)) then ''-9'' else ''-15'')
                        @ '' '' @ trim out]))\<close>
  by (auto simp: handleKillProcess_def killProcess_def Let_def tryCatch_def bindE_def
      execAsync_def ret_def signal_flag_def split: prod.splits sum.splits)

theorem kill_process_contract_witness:
  \<open>handleKillProcess pgrep_shell Map.empty fresh =
     (Inr (JObj [(''success'', JBool False),
                 (''error'', JStr ''Must provide either pid or name'')]), fresh)
   \<and> issued (snd (handleKillProcess pgrep_shell
                      [''pid'' \<mapsto> JStr ''77'', ''force'' \<mapsto> JBool True] fresh)) = [''kill -9 77'']
   \<and> issued (snd (handleKillProcess pgrep_shell [''name'' \<mapsto> JStr ''node''] fresh)) =
       [''pgrep -f "node" | head -1'', ''kill -15 4242'']\<close>
  using kill_process_contract [of Map.empty pgrep_shell fresh]
    kill_process_contract [of "[''pid'' \<mapsto> JStr ''77'', ''force'' \<mapsto> JBool True]" pgrep_shell fresh]
    kill_process_contract [of "[''name'' \<mapsto> JStr ''node'']" pgrep_shell fresh]
  by (simp add: arg_def param_def fresh_def pgrep_shell_def trim_def is_space_def)

text \<open>
  Claim C10. A \<^verbatim>\<open>pid\<close> of 0 is falsy, so it is treated as absent. Without a name the
  handler returns the "Must provide either pid or name" error and issues no command.
  With a name it behaves exactly as if no \<^verbatim>\<open>pid\<close> had been given: the commands issued are
  \<^verbatim>\<open>pgrep -f "name" | head -1\<close> and then, when that prints a process id, \<^verbatim>\<open>kill\<close> with the
  signal flag and that id (never the given pid 0); the payload reports the found id, the
  name and the signal when the \<^verbatim>\<open>kill\<close> succeeds, and the error of the \<^verbatim>\<open>kill\<close> otherwise.
\<close>

theorem kill_process_pid_zero:
  \<open>arg a ''pid'' = JNum (Fin 0) \<Longrightarrow>
     (arg a ''name'' = JUndef \<longrightarrow>
        handleKillProcess sh a w =
          (Inr (JObj [(''success'', JBool False),
                      (''error'', JStr ''Must provide either pid or name'')]), w))
     \<and> (truthy (arg a ''name'') \<longrightarrow>
          handleKillProcess sh a w = handleKillProcess sh (a(''pid'' := None)) w
          \<and> take (Suc (length (issued w))) (issued (snd (handleKillProcess sh a w))) =
              issued w @ [''pgrep -f "'' @ to_str (arg a ''name'') @ ''" | head -1'']
          \<and> issued (snd (handleKillProcess sh a w)) =
              issued w @ [''pgrep -f "'' @ to_str (arg a ''name'') @ ''" | head -1''] @
              (case fst (sh (machine w) (''pgrep -f "'' @ to_str (arg a ''name'') @ ''" | head -1'')) of
                 Inl e \<Rightarrow> []
               | Inr out \<Rightarrow>
                   if trim out = [] then []
                   else [''kill '' @ (if truthy (param a ''force'' (JBool False)) then ''-9'' else ''-15'')
                           @ '' '' @ trim out])
          \<and> (\<forall>out m e. sh (machine w) (''pgrep -f "'' @ to_str (arg a ''name'') @ ''" | head -1'')
                          = (Inr out, m) \<and> trim out \<noteq> [] \<longrightarrow>
                fst (handleKillProcess sh a w) =
                  (case fst (sh m (''kill '' @ (if truthy (param a ''force'' (JBool False))
                                               then ''-9'' else ''-15'') @ '' '' @ trim out)) of
                     Inl e \<Rightarrow> Inr (JObj [(''success'', JBool False), (''error'', JStr e)])
                   | Inr x \<Rightarrow>
                       Inr (JObj [(''success'', JBool True),
                                  (''killed'', JObj [(''pid'', JNum (parseInt (trim out))),
                                                     (''name'', arg a ''name'')]),
                                  (''signal'', JStr (if truthy (param a ''force'' (JBool False))
                                                     then ''SIGKILL'' else ''SIGTERM''))]))))\<close>
  by (auto simp: handleKillProcess_def killProcess_def Let_def tryCatch_def bindE_def
      execAsync_def ret_def signal_flag_def signal_name_def arg_def param_def
      split: prod.splits sum.splits)

theorem kill_process_pid_zero_witness:
  \<open>handleKillProcess pgrep_shell [''pid'' \<mapsto> JNum (Fin 0)] fresh =
     (Inr (JObj [(''success'', JBool False),
                 (''error'', JStr ''Must provide either pid or name'')]), fresh)
   \<and> handleKillProcess pgrep_shell [''pid'' \<mapsto> JNum (Fin 0), ''name'' \<mapsto> JStr ''node''] fresh =
       handleKillProcess pgrep_shell [''name'' \<mapsto> JStr ''node''] fresh
   \<and> take 1 (issued (snd (handleKillProcess pgrep_shell
                      [''pid'' \<mapsto> JNum (Fin 0), ''name'' \<mapsto> JStr ''node''] fresh))) =
       [''pgrep -f "node" | head -1'']
   \<and> issued (snd (handleKillProcess pgrep_shell
                      [''pid'' \<mapsto> JNum (Fin 0), ''name'' \<mapsto> JStr ''node''] fresh)) =
       [''pgrep -f "node" | head -1'', ''kill -15 4242'']
   \<and> fst (handleKillProcess pgrep_shell
                      [''pid'' \<mapsto> JNum (Fin 0), ''name'' \<mapsto> JStr ''node''] fresh) =
       Inr (JObj [(''success'', JBool True),
                  (''killed'', JObj [(''pid'', JNum (Fin 4242)), (''name'', JStr ''node'')]),
                  (''signal'', JStr ''SIGTERM'')])\<close>
proof -
  have p: "parseInt ''4242'' = Fin 4242"
    by (simp add: parseInt_def split_sign_def is_space_def is_digit_def radix_val_def digit_val_def)
  show ?thesis
    using kill_process_pid_zero [of "[''pid'' \<mapsto> JNum (Fin 0)]" pgrep_shell fresh]
      kill_process_pid_zero [of "[''pid'' \<mapsto> JNum (Fin 0), ''name'' \<mapsto> JStr ''node'']"
        pgrep_shell fresh]
    by (auto simp add: arg_def param_def fresh_def fun_upd_twist pgrep_shell_def trim_def
        is_space_def p)
qed

subsection \<open>Defaults\<close>

text \<open>
  Claim C9. For every tool of the registry, a call with the empty argument object, and a
  call with no argument object at all, gives the same result and the same world as a
  call in which every declared parameter is set to its declared default, on every
  machine: the defaults of the handlers' parameter lists are those of the schemas.
\<close>

theorem default_filling:
  "t \<in> set tools \<Longrightarrow>
     callTool sh home (t_name t) (Some Map.empty) w =
       callTool sh home (t_name t) (Some (declared_defaults t)) w
     \<and> callTool sh home (t_name t) None w =
       callTool sh home (t_name t) (Some (declared_defaults t)) w"
  unfolding tools_def
  by (auto simp: callTool_def declared_defaults_def decl_def flag_def param_def arg_def
      handleDiskUsage_def handleCleanupCaches_def handleDockerCleanup_def handleEmptyTrash_def
      handleFullCleanupWorkflow_def handleDeveloperCleanup_def handleCpuUsage_def
      handleProcessList_def handleKillProcess_def handleStartupItems_def)

theorem default_filling_witness:
  "callTool no_brew None ''mac_developer_cleanup'' (Some Map.empty) fresh =
     callTool no_brew None ''mac_developer_cleanup''
       (Some (map_of [(''cleanNodeModules'', JBool False), (''cleanXcode'', JBool False),
                      (''cleanPyenvOldVersions'', JBool False), (''dryRun'', JBool True)])) fresh"
  using default_filling [of "\<lparr>t_name = ''mac_developer_cleanup'', t_properties =
        [flag ''cleanNodeModules'' False, flag ''cleanXcode'' False,
         flag ''cleanPyenvOldVersions'' False, flag ''dryRun'' True]\<rparr>" no_brew None fresh]
  by (simp add: tools_def declared_defaults_def flag_def decl_def)

subsection \<open>Errors\<close>




subsection \<open>\<^verbatim>\<open>mac_cleanup_caches\<close>\<close>

text \<open>
  Claim C6. With an array of targets, \<^verbatim>\<open>handleCleanupCaches\<close> is \<open>run_key\<close> applied to the
  six keys in order: every selected key has its command run, whatever became of the
  commands before it, and its entry is made from the outcome of its own command alone,
  \<^verbatim>\<open>{error: message}\<close> when that command failed and the normal entry when it succeeded.
  So a single failing target has the entry \<^verbatim>\<open>{error: message}\<close> and every other selected
  target its normal result.
\<close>

theorem cleanup_caches_isolation:
  "param a ''targets'' (JArr [JStr ''all'']) = JArr xs \<Longrightarrow>
     handleCleanupCaches sh home a w =
       (case foldl (run_key sh home (param a ''dryRun'' (JBool False)) xs) ([], w) cache_keys of
          (results, w') \<Rightarrow>
            (Inr (JObj [(''dryRun'', param a ''dryRun'' (JBool False)),
                        (''results'', JObj results)]), w'))"
  by (simp add: handleCleanupCaches_def cleanup_closed)

theorem cleanup_caches_isolation_witness:
  "fst (handleCleanupCaches no_brew (Some ''/Users/me'') Map.empty fresh) =
     Inr (JObj [(''dryRun'', JBool False),
                (''results'', JObj
                   [(''go'', JObj [(''status'', JStr ''cleaned'')]),
                    (''brew'', JObj [(''error'', JStr ''/bin/sh: brew: command not found'')]),
                    (''npm'', JObj [(''status'', JStr ''cleaned'')]),
                    (''pip'', JObj [(''status'', JStr ''cleaned'')]),
                    (''chrome'', JObj [(''status'', JStr ''cleaned'')]),
                    (''spotify'', JObj [(''status'', JStr ''cleaned'')])])])"
  using cleanup_caches_isolation [of Map.empty "[JStr ''all'']" no_brew "Some ''/Users/me''" fresh]
  by (simp add: param_def arg_def cache_keys_def run_key_def cache_command_def cache_entry_def
      normal_entry_def execAsync_def no_brew_def fresh_def)

text \<open>
  Claim C1, as the code has it. The dispatcher does not check \<^verbatim>\<open>targets\<close> against the
  declared enumeration; the handler runs. A value outside the enumeration is ignored:
  the call gives what it gives without these values, and when no element of \<^verbatim>\<open>targets\<close>
  is in the enumeration the call returns \<^verbatim>\<open>{dryRun, results: {}}\<close> and issues no command.
\<close>

theorem enum_not_checked:
  "arg a ''targets'' = JArr xs \<Longrightarrow>
     callTool sh home ''mac_cleanup_caches'' (Some a) w =
       callTool sh home ''mac_cleanup_caches''
         (Some (a(''targets'' \<mapsto> JArr (filter (\<lambda>x. x \<in> JStr ` set (''all'' # cache_keys)) xs)))) w
     \<and> ((\<forall>x \<in> set xs. x \<notin> JStr ` set (''all'' # cache_keys)) \<longrightarrow>
          callTool sh home ''mac_cleanup_caches'' (Some a) w =
            (Inr (JObj [(''dryRun'', param a ''dryRun'' (JBool False)),
                        (''results'', JObj [])]), w))"
proof -
  assume t: "arg a ''targets'' = JArr xs"
  define ys where "ys = filter (\<lambda>x. x \<in> JStr ` set (''all'' # cache_keys)) xs"
  have "k \<in> set cache_keys \<Longrightarrow> run_key sh home d xs acc k = run_key sh home d ys acc k"
    for d acc k
    by (rule run_key_cong) (auto simp: ys_def)
  then have same: "foldl (run_key sh home d xs) ([], w) cache_keys =
      foldl (run_key sh home d ys) ([], w) cache_keys" for d
    by (intro foldl_cong) auto
  have none: "foldl (run_key sh home d xs) ([], w) cache_keys = ([], w)"
    if "\<forall>x \<in> set xs. x \<notin> JStr ` set (''all'' # cache_keys)" for d
  proof (rule foldl_unchanged)
    fix k acc assume "k \<in> set cache_keys"
    with that show "run_key sh home d xs acc k = acc"
      by (intro run_key_unselected) auto
  qed
  from t have p: "param a ''targets'' (JArr [JStr ''all'']) = JArr xs"
    by (simp add: param_def)
  have q: "param (a(''targets'' \<mapsto> JArr ys)) ''targets'' (JArr [JStr ''all'']) = JArr ys"
    by (simp add: param_def arg_def)
  have r: "param (a(''targets'' \<mapsto> JArr ys)) ''dryRun'' (JBool False) =
      param a ''dryRun'' (JBool False)"
    by (simp add: param_def arg_def)
  have call: "callTool sh home ''mac_cleanup_caches'' (Some b) w = handleCleanupCaches sh home b w"
    for b
    by (simp add: callTool_def)
  have lhs: "callTool sh home ''mac_cleanup_caches'' (Some a) w =
      (case foldl (run_key sh home (param a ''dryRun'' (JBool False)) xs) ([], w) cache_keys of
         (results, w') \<Rightarrow>
           (Inr (JObj [(''dryRun'', param a ''dryRun'' (JBool False)),
                       (''results'', JObj results)]), w'))"
    by (simp only: call handleCleanupCaches_def p cleanup_closed)
  have rhs: "callTool sh home ''mac_cleanup_caches'' (Some (a(''targets'' \<mapsto> JArr ys))) w =
      (case foldl (run_key sh home (param a ''dryRun'' (JBool False)) ys) ([], w) cache_keys of
         (results, w') \<Rightarrow>
           (Inr (JObj [(''dryRun'', param a ''dryRun'' (JBool False)),
                       (''results'', JObj results)]), w'))"
    by (simp only: call handleCleanupCaches_def q r cleanup_closed)
  have "callTool sh home ''mac_cleanup_caches'' (Some a) w =
        callTool sh home ''mac_cleanup_caches'' (Some (a(''targets'' \<mapsto> JArr ys))) w"
    by (simp only: lhs rhs same)
  moreover have "callTool sh home ''mac_cleanup_caches'' (Some a) w =
        (Inr (JObj [(''dryRun'', param a ''dryRun'' (JBool False)), (''results'', JObj [])]), w)"
    if "\<forall>x \<in> set xs. x \<notin> JStr ` set (''all'' # cache_keys)"
    using that by (simp only: lhs none) simp
  ultimately show ?thesis
    unfolding ys_def by blast
qed

theorem enum_not_checked_witness:
  "callTool dead_shell None ''mac_cleanup_caches''
     (Some [''targets'' \<mapsto> JArr [JStr ''go'', JStr ''bogus'']]) fresh =
   callTool dead_shell None ''mac_cleanup_caches'' (Some [''targets'' \<mapsto> JArr [JStr ''go'']]) fresh
   \<and> callTool dead_shell None ''mac_cleanup_caches''
       (Some [''targets'' \<mapsto> JArr [JNum (Fin 7), JStr ''cargo'']]) fresh =
     (Inr (JObj [(''dryRun'', JBool False), (''results'', JObj [])]), fresh)"
  using enum_not_checked [of "[''targets'' \<mapsto> JArr [JStr ''go'', JStr ''bogus'']]"
      "[JStr ''go'', JStr ''bogus'']" dead_shell None fresh]
    enum_not_checked [of "[''targets'' \<mapsto> JArr [JNum (Fin 7), JStr ''cargo'']]"
      "[JNum (Fin 7), JStr ''cargo'']" dead_shell None fresh]
  by (auto simp add: arg_def param_def cache_keys_def image_iff)

text \<open>
  The claim as written fails: \<^verbatim>\<open>targets: ["bogus"]\<close> is not rejected. The call succeeds
  with the handler's result, an empty \<^verbatim>\<open>results\<close> object.
\<close>

theorem enum_rejection_counterexample:
  "callTool dead_shell None ''mac_cleanup_caches'' (Some [''targets'' \<mapsto> JArr [JStr ''bogus'']])
     fresh =
   (Inr (JObj [(''dryRun'', JBool False), (''results'', JObj [])]), fresh)"
  by (simp add: callTool_def handleCleanupCaches_def cleanupCaches_def cache_step_def
      js_includes_def param_def arg_def bindE_def ret_def Let_def)

subsection \<open>\<^verbatim>\<open>mac_go_cache_status\<close>\<close>

text \<open>
  Claim C7. The handler compares the number in front of the figure that \<^verbatim>\<open>du -sh\<close>
  prints with 20 and 10, after taking out the letter \<^verbatim>\<open>G\<close>; it does not look at the unit.
  For figures in gigabytes this is the claim: \<^verbatim>\<open>25G\<close> is critical, \<^verbatim>\<open>5G\<close> is reasonable.
\<close>

lemma go_cache_25G:
  "field ''recommendation''
     (case fst (handleGoCacheStatus (du_reports ''25G'') fresh) of Inr r \<Rightarrow> r | Inl e \<Rightarrow> JUndef) =
   JStr ''CRITICAL: Cache is very large. Run 'go clean -cache' to reclaim space.''"
  by (simp add: handleGoCacheStatus_def tryCatch_def bindE_def execAsync_def ret_def
      du_reports_def fresh_def first_field_def is_space_def replace_first_def or_zero_def
      parseFloat_def split_sign_def is_digit_def radix_val_def digit_val_def exponent_part_def
      scale10_def recommendation_def num_gt_def)

lemma go_cache_5G:
  "field ''recommendation''
     (case fst (handleGoCacheStatus (du_reports ''5G'') fresh) of Inr r \<Rightarrow> r | Inl e \<Rightarrow> JUndef) =
   JStr ''Cache size is reasonable.''"
  by (simp add: handleGoCacheStatus_def tryCatch_def bindE_def execAsync_def ret_def
      du_reports_def fresh_def first_field_def is_space_def replace_first_def or_zero_def
      parseFloat_def split_sign_def is_digit_def radix_val_def digit_val_def exponent_part_def
      scale10_def recommendation_def num_gt_def)

text \<open>
  A cache of 500 megabytes, which \<^verbatim>\<open>du -sh\<close> prints as \<^verbatim>\<open>500M\<close>, is below both
  thresholds, and the handler calls it critical: it reads the figure as 500 gigabytes.
\<close>

theorem go_cache_status_megabytes:
  "field ''recommendation''
     (case fst (handleGoCacheStatus (du_reports ''500M'') fresh) of Inr r \<Rightarrow> r | Inl e \<Rightarrow> JUndef) =
   JStr ''CRITICAL: Cache is very large. Run 'go clean -cache' to reclaim space.''"
  by (simp add: handleGoCacheStatus_def tryCatch_def bindE_def execAsync_def ret_def
      du_reports_def fresh_def first_field_def is_space_def replace_first_def or_zero_def
      parseFloat_def split_sign_def is_digit_def radix_val_def digit_val_def exponent_part_def
      scale10_def recommendation_def num_gt_def)

subsection \<open>\<^verbatim>\<open>mac_full_cleanup_workflow\<close>\<close>

text \<open>
  Claim C5. The payload of the workflow has the fields \<^verbatim>\<open>steps\<close>, \<^verbatim>\<open>totalRecovered\<close>,
  \<^verbatim>\<open>dryRun\<close>, \<^verbatim>\<open>before\<close> and \<^verbatim>\<open>after\<close>. The names of the step records are, in this
  order, Empty Trash, Go Build Cache, Homebrew Cache, Chrome Cache, Spotify Cache, npm
  Cache and pip Cache, followed by Docker exactly when \<^verbatim>\<open>includeDocker\<close> is set. The
  commands are issued in the same order: first the \<^verbatim>\<open>df\<close> of the before-state, then the
  commands of the seven steps (none of them a Docker command), then the Docker commands
  (none without \<^verbatim>\<open>includeDocker\<close>, otherwise beginning with \<^verbatim>\<open>docker system df\<close>), and last,
  unless the run is dry, the \<^verbatim>\<open>df\<close> of the after-state.
\<close>

theorem workflow_order:
  "\<exists>steps total before after s' cs ds.
     handleFullCleanupWorkflow sh home a w =
       (Inr (JObj [(''steps'', JArr steps), (''totalRecovered'', JStr total),
                   (''dryRun'', param a ''dryRun'' (JBool False)),
                   (''before'', before), (''after'', after)]), s')
     \<and> map (field ''name'') steps = map JStr (step_names (param a ''includeDocker'' (JBool False)))
     \<and> issued s' = issued w @ [''df -h / | tail -1''] @ cs @ ds
           @ (if truthy (param a ''dryRun'' (JBool False)) then [] else [''df -h / | tail -1''])
     \<and> (\<forall>c \<in> set cs. take 6 c \<noteq> ''docker'')
     \<and> (if truthy (param a ''includeDocker'' (JBool False)) then take 1 ds = [docker_df]
         else ds = [])
     \<and> (\<forall>c \<in> set ds. take 6 c = ''docker'')"
proof -
  let ?d = "param a ''dryRun'' (JBool False)"
  let ?iD = "param a ''includeDocker'' (JBool False)"
  let ?iV = "param a ''includeDockerVolumes'' (JBool False)"
  obtain flow s1 cs ds where run: "cleanupSteps sh home ?iD ?iV ?d w = (Inr flow, s1)"
    and names: "map (field ''name'') (wf_steps flow) = map JStr (step_names ?iD)"
    and dry: "wf_dryRun flow = ?d"
    and before: "wf_before flow = Some (before_state (fst (sh (machine w) ''df -h / | tail -1'')))"
    and log: "issued s1 = issued w @ [''df -h / | tail -1''] @ cs @ ds"
    and cs: "\<forall>c \<in> set cs. take 6 c \<noteq> ''docker''"
    and ds: "if truthy ?iD then take 1 ds = [docker_df] else ds = []" "\<forall>c \<in> set ds. take 6 c = ''docker''"
    using steps_shape [of sh home ?iD ?iV ?d w] by blast
  obtain flow' s2 where after: "captureAfter sh ?d flow s1 = (Inr flow', s2)"
    and frame: "wf_steps flow' = wf_steps flow" "wf_dryRun flow' = wf_dryRun flow"
      "wf_before flow' = wf_before flow" "wf_after flow' \<noteq> None"
    and log2: "issued s2 = issued s1 @ (if truthy ?d then [] else [''df -h / | tail -1''])"
    using captureAfter_frame [OF before, of sh ?d s1] by blast
  from frame(4) obtain x where x: "wf_after flow' = Some x" by auto
  have res: "handleFullCleanupWorkflow sh home a w = (Inr (workflow_obj flow'), s2)"
    by (simp add: handleFullCleanupWorkflow_def fullCleanupWorkflow_def bindE_def run after ret_def)
  have obj: "workflow_obj flow' =
      JObj [(''steps'', JArr (wf_steps flow)), (''totalRecovered'', JStr (wf_totalRecovered flow')),
            (''dryRun'', ?d),
            (''before'', before_state (fst (sh (machine w) ''df -h / | tail -1''))),
            (''after'', x)]"
    by (simp add: workflow_obj_def frame before dry x)
  show ?thesis
  proof (intro exI conjI)
    show "handleFullCleanupWorkflow sh home a w =
       (Inr (JObj [(''steps'', JArr (wf_steps flow)), (''totalRecovered'', JStr (wf_totalRecovered flow')),
                   (''dryRun'', ?d),
                   (''before'', before_state (fst (sh (machine w) ''df -h / | tail -1''))),
                   (''after'', x)]), s2)"
      by (simp only: res obj)
    show "map (field ''name'') (wf_steps flow) = map JStr (step_names ?iD)" by (rule names)
    show "issued s2 = issued w @ [''df -h / | tail -1''] @ cs @ ds
           @ (if truthy ?d then [] else [''df -h / | tail -1''])"
      by (simp add: log2 log)
    show "\<forall>c \<in> set cs. take 6 c \<noteq> ''docker''" by (rule cs)
    show "if truthy ?iD then take 1 ds = [docker_df] else ds = []" by (rule ds(1))
    show "\<forall>c \<in> set ds. take 6 c = ''docker''" by (rule ds(2))
  qed
qed

theorem workflow_order_witness:
  "map (field ''name'')
     (items (field ''steps'' (payload (handleFullCleanupWorkflow healthy (Some ''/Users/me'')
        [''includeDocker'' \<mapsto> JBool True] fresh)))) =
   map JStr [''Empty Trash'', ''Go Build Cache'', ''Homebrew Cache'', ''Chrome Cache'',
             ''Spotify Cache'', ''npm Cache'', ''pip Cache'', ''Docker'']
   \<and> map (field ''name'')
     (items (field ''steps'' (payload (handleFullCleanupWorkflow healthy (Some ''/Users/me'')
        Map.empty fresh)))) =
   map JStr [''Empty Trash'', ''Go Build Cache'', ''Homebrew Cache'', ''Chrome Cache'',
             ''Spotify Cache'', ''npm Cache'', ''pip Cache'']"
  using workflow_order [of healthy "Some ''/Users/me''" "[''includeDocker'' \<mapsto> JBool True]" fresh]
    workflow_order [of healthy "Some ''/Users/me''" Map.empty fresh]
  by (auto simp: payload_def items_def step_names_def param_def arg_def)

text \<open>
  Claim C2, as the code has it. In a run that is not dry: when the \<^verbatim>\<open>df\<close> of the
  after-state fails, \<^verbatim>\<open>totalRecovered\<close> keeps its initial text \<^verbatim>\<open>calculating...\<close> and
  \<^verbatim>\<open>after\<close> is \<^verbatim>\<open>{error: message}\<close>; when it succeeds and the \<^verbatim>\<open>df\<close> of the before-state had
  failed, \<^verbatim>\<open>totalRecovered\<close> is computed all the same, with 0 in place of the missing
  figure: it is the available space of the after-state, to one decimal, followed by
  \<^verbatim>\<open>G\<close>. (Numbers are exact in the model; see the remark on \<open>jsnum\<close>.)
\<close>

theorem recovered_space:
  "\<not> truthy (param a ''dryRun'' (JBool False)) \<Longrightarrow>
   (\<forall>e. fst (sh (machine (snd (cleanupSteps sh home (param a ''includeDocker'' (JBool False))
                (param a ''includeDockerVolumes'' (JBool False))
                (param a ''dryRun'' (JBool False)) w))) ''df -h / | tail -1'') = Inl e \<longrightarrow>
      (\<exists>r. fst (handleFullCleanupWorkflow sh home a w) = Inr r
         \<and> field ''totalRecovered'' r = JStr ''calculating...''
         \<and> field ''after'' r = JObj [(''error'', JStr e)]))
   \<and> (\<forall>out e. fst (sh (machine (snd (cleanupSteps sh home (param a ''includeDocker'' (JBool False))
                (param a ''includeDockerVolumes'' (JBool False))
                (param a ''dryRun'' (JBool False)) w))) ''df -h / | tail -1'') = Inr out
          \<and> fst (sh (machine w) ''df -h / | tail -1'') = Inl e \<longrightarrow>
      (\<exists>r. fst (handleFullCleanupWorkflow sh home a w) = Inr r
         \<and> field ''before'' r = JObj [(''error'', JStr e)]
         \<and> field ''after'' r = disk_state out
         \<and> field ''totalRecovered'' r =
             JStr (toFixed 1 (num_sub (parseFloat (available_text (disk_state out))) (Fin 0))
                   @ ''G'')))"
proof -
  let ?d = "param a ''dryRun'' (JBool False)"
  let ?iD = "param a ''includeDocker'' (JBool False)"
  let ?iV = "param a ''includeDockerVolumes'' (JBool False)"
  let ?df = "''df -h / | tail -1''"
  assume real: "\<not> truthy ?d"
  obtain flow s1 where run: "cleanupSteps sh home ?iD ?iV ?d w = (Inr flow, s1)"
    and total: "wf_totalRecovered flow = ''calculating...''"
    and before: "wf_before flow = Some (before_state (fst (sh (machine w) ?df)))"
    using steps_shape [of sh home ?iD ?iV ?d w] by blast
  have call: "handleFullCleanupWorkflow sh home a w =
      bindE (captureAfter sh ?d flow) (\<lambda>flow. ret (workflow_obj flow)) s1"
    by (simp add: handleFullCleanupWorkflow_def fullCleanupWorkflow_def bindE_def run)
  have failed: "\<exists>r. fst (handleFullCleanupWorkflow sh home a w) = Inr r
         \<and> field ''totalRecovered'' r = JStr ''calculating...''
         \<and> field ''after'' r = JObj [(''error'', JStr e)]"
    if "fst (sh (machine s1) ?df) = Inl e" for e
    using before total
    by (simp add: call bindE_def ret_def captureAfter_fail [of "param a ''dryRun'' (JBool False)" sh s1 e flow, OF real that] workflow_obj_def)
  have defaulted: "\<exists>r. fst (handleFullCleanupWorkflow sh home a w) = Inr r
         \<and> field ''before'' r = JObj [(''error'', JStr e)]
         \<and> field ''after'' r = disk_state out
         \<and> field ''totalRecovered'' r =
             JStr (toFixed 1 (num_sub (parseFloat (available_text (disk_state out))) (Fin 0))
                   @ ''G'')"
    if "fst (sh (machine s1) ?df) = Inr out" "fst (sh (machine w) ?df) = Inl e" for out e
    using that(2)
    by (simp add: call bindE_def ret_def captureAfter_ok [of "param a ''dryRun'' (JBool False)" sh s1 out flow, OF real that(1) before] workflow_obj_def
        before before_state_def available_text_def parseFloat_zero)
  show ?thesis
    using failed defaulted by (simp add: run)
qed

theorem recovered_space_witness:
  "(\<exists>r. fst (handleFullCleanupWorkflow (flaky_df False) (Some ''/Users/me'') Map.empty fresh) = Inr r
      \<and> field ''totalRecovered'' r = JStr ''calculating...''
      \<and> field ''after'' r = JObj [(''error'', JStr ''df: cannot read table of mounted file systems'')])
   \<and> (\<exists>r. fst (handleFullCleanupWorkflow (flaky_df True) (Some ''/Users/me'') Map.empty fresh) = Inr r
      \<and> field ''before'' r = JObj [(''error'', JStr ''df: cannot read table of mounted file systems'')]
      \<and> field ''after'' r = disk_state df_text
      \<and> field ''totalRecovered'' r = JStr ''150.0G'')"
proof -
  have f: "\<not> truthy (param Map.empty ''dryRun'' (JBool False))"
    by (simp add: param_def arg_def)
  have a: "fst (flaky_df False (machine (snd (cleanupSteps (flaky_df False) (Some ''/Users/me'')
                (param Map.empty ''includeDocker'' (JBool False))
                (param Map.empty ''includeDockerVolumes'' (JBool False))
                (param Map.empty ''dryRun'' (JBool False)) fresh))) ''df -h / | tail -1'')
         = Inl ''df: cannot read table of mounted file systems''"
    by code_simp
  have b: "fst (flaky_df True (machine (snd (cleanupSteps (flaky_df True) (Some ''/Users/me'')
                (param Map.empty ''includeDocker'' (JBool False))
                (param Map.empty ''includeDockerVolumes'' (JBool False))
                (param Map.empty ''dryRun'' (JBool False)) fresh))) ''df -h / | tail -1'')
         = Inr df_text
       \<and> fst (flaky_df True (machine fresh) ''df -h / | tail -1'')
         = Inl ''df: cannot read table of mounted file systems''"
    by code_simp
  have c: "toFixed 1 (num_sub (parseFloat (available_text (disk_state df_text))) (Fin 0)) @ ''G''
      = ''150.0G''"
    by code_simp
  from recovered_space [OF f, of "flaky_df False" "Some ''/Users/me''" fresh] a
    recovered_space [OF f, of "flaky_df True" "Some ''/Users/me''" fresh] b c
  show ?thesis by (simp del: One_nat_def)
qed

text \<open>
  The claim as written fails: the first \<^verbatim>\<open>df\<close> fails, the last one reports 150Gi
  available, and the workflow reports 150.0G as recovered.
\<close>

theorem recovered_space_counterexample:
  "field ''before'' (payload (handleFullCleanupWorkflow (flaky_df True) (Some ''/Users/me'')
      Map.empty fresh)) =
     JObj [(''error'', JStr ''df: cannot read table of mounted file systems'')]
   \<and> field ''totalRecovered'' (payload (handleFullCleanupWorkflow (flaky_df True)
      (Some ''/Users/me'') Map.empty fresh)) = JStr ''150.0G''"
  by code_simp




end
